theory Spec2Isabelle
  imports Complex_Main
begin

section \<open>Tensors over the reals\<close>

text \<open>
  The GAIL reward provider computes on float32 tensors. A number of a tensor is
  represented by the real it denotes: a one-dimensional tensor is a list, a
  two-dimensional tensor is the list of its rows (one row per experience). A tensor
  without rows stands for every shape \<open>(0, c)\<close>. Where torch would raise, the model
  returns an error; where the float computation would leave the finite numbers (the
  logarithm of a number that is not positive, the mean of no element), the model returns
  \<open>NonFinite\<close>: the reals have no infinity and no NaN, so the model stops there.

  The estimate of the discriminator and the reward that \<open>evaluate\<close> computes from it are
  rounded to float32 after every operation (\<open>float32\<close> below): which rewards are equal
  and which estimates reach 0 and 1 depends on the rounding. The losses of training are
  sums and products of these estimates, modelled without further rounding.
\<close>

type_synonym vector = "real list"
type_synonym tensor = "real list list"

datatype error = RuntimeError | AttributeError | TypeError | NonFinite

definition bind_result :: "error + 'a \<Rightarrow> ('a \<Rightarrow> error + 'b) \<Rightarrow> error + 'b" where
  "bind_result m f = (case m of Inl e \<Rightarrow> Inl e | Inr x \<Rightarrow> f x)"

primrec collect :: "(error + 'a) list \<Rightarrow> error + 'a list" where
  "collect [] = Inr []"
| "collect (r # rs) =
     bind_result r (\<lambda>x. bind_result (collect rs) (\<lambda>xs. Inr (x # xs)))"

subsection \<open>Broadcasting\<close>

text \<open>
  torch combines two tensors elementwise when, in every dimension, the sizes are equal
  or one of them is 1; the dimension of size 1 is repeated. Any other pair of sizes is a
  RuntimeError.
\<close>

definition compatible :: "nat \<Rightarrow> nat \<Rightarrow> bool" where
  "compatible m n \<longleftrightarrow> m = n \<or> m = 1 \<or> n = 1"

definition broadcast_size :: "nat \<Rightarrow> nat \<Rightarrow> nat" where
  "broadcast_size m n = (if m = 1 then n else m)"

definition expand :: "nat \<Rightarrow> 'a list \<Rightarrow> 'a list" where
  "expand n xs = (if length xs = n then xs else concat (replicate n xs))"

definition broadcast2 :: "('a \<Rightarrow> 'b \<Rightarrow> 'c) \<Rightarrow> 'a list \<Rightarrow> 'b list \<Rightarrow> error + 'c list" where
  "broadcast2 f xs ys =
     (if compatible (length xs) (length ys)
      then let n = broadcast_size (length xs) (length ys)
           in Inr (map2 f (expand n xs) (expand n ys))
      else Inl RuntimeError)"

definition elementwise ::
  "('a \<Rightarrow> 'b \<Rightarrow> 'c) \<Rightarrow> 'a list list \<Rightarrow> 'b list list \<Rightarrow> error + 'c list list" where
  "elementwise f a b = bind_result (broadcast2 (broadcast2 f) a b) collect"

text \<open>\<open>torch.cat(ts, dim=1)\<close>: the tensors are joined row by row; they must have the same
  number of rows.\<close>

fun cat_dim1 :: "tensor list \<Rightarrow> error + tensor" where
  "cat_dim1 [] = Inl RuntimeError"
| "cat_dim1 [t] = Inr t"
| "cat_dim1 (t # ts) =
     bind_result (cat_dim1 ts) (\<lambda>rest.
       if length t = length rest then Inr (map2 (@) t rest) else Inl RuntimeError)"

definition numel :: "'a list list \<Rightarrow> nat" where
  "numel t = length (concat t)"

definition torch_log :: "tensor \<Rightarrow> error + tensor" where
  "torch_log t =
     (if list_all (\<lambda>x. 0 < x) (concat t) then Inr (map (map ln) t) else Inl NonFinite)"

definition torch_log_vec :: "vector \<Rightarrow> error + vector" where
  "torch_log_vec v = (if list_all (\<lambda>x. 0 < x) v then Inr (map ln v) else Inl NonFinite)"

definition vec_mean :: "vector \<Rightarrow> error + real" where
  "vec_mean v = (if v = [] then Inl NonFinite else Inr (sum_list v / real (length v)))"

definition torch_mean :: "tensor \<Rightarrow> error + real" where
  "torch_mean t = vec_mean (concat t)"

definition sum_dim1 :: "tensor \<Rightarrow> vector" where
  "sum_dim1 t = map sum_list t"

text \<open>\<open>t.squeeze(dim=1)\<close> on a tensor of shape \<open>(N, 1)\<close>: the entries, one per row.\<close>

definition squeeze_dim1 :: "tensor \<Rightarrow> vector" where
  "squeeze_dim1 t = concat t"

subsection \<open>float32 numbers\<close>

text \<open>
  \<open>float32 x\<close> is the float32 number nearest to \<open>x\<close>, ties going to the even
  significand: 24 binary digits, the exponent of the leading digit at least -126 (below
  that the numbers are subnormal, with the spacing \<open>2 ^ -149\<close>). It is applied to exact
  results below \<open>2 ^ 128\<close> in absolute value only, so no overflow is modelled.
  \<open>torch.log\<close> on a float32 tensor is taken to round the exact logarithm.
\<close>

definition round_even :: "real \<Rightarrow> int" where
  "round_even y =
     (let f = \<lfloor>y\<rfloor>; d = y - of_int f
      in if d < 1 / 2 then f else if 1 / 2 < d then f + 1
         else if even f then f else f + 1)"

definition float32_exponent :: "real \<Rightarrow> int" where
  "float32_exponent x = max (- 126) \<lfloor>log 2 x\<rfloor>"

definition float32_ulp :: "real \<Rightarrow> real" where
  "float32_ulp x = 2 powr of_int (float32_exponent x - 23)"

definition nearest32 :: "real \<Rightarrow> real" where
  "nearest32 x = of_int (round_even (x / float32_ulp x)) * float32_ulp x"

definition float32 :: "real \<Rightarrow> real" where
  "float32 x = (if x = 0 then 0 else if 0 < x then nearest32 x else - nearest32 (- x))"

definition torch_log32_vec :: "vector \<Rightarrow> error + vector" where
  "torch_log32_vec v =
     (if list_all (\<lambda>x. 0 < x) v then Inr (map (\<lambda>x. float32 (ln x)) v) else Inl NonFinite)"

subsection \<open>The random generator\<close>

text \<open>
  torch draws from one shared generator. The generator is a state: the draws it will
  give, and how many it has given. \<open>torch.rand\<close> reads uniform draws, \<open>torch.normal\<close>
  reads standard normal draws; each call consumes one draw per element.
\<close>

record generator =
  uniform_draws :: "nat \<Rightarrow> real"
  normal_draws :: "nat \<Rightarrow> real"
  consumed :: nat

fun fill :: "(nat \<Rightarrow> real) \<Rightarrow> nat \<Rightarrow> 'a list list \<Rightarrow> tensor" where
  "fill f k [] = []"
| "fill f k (r # rs) = map f [k ..< k + length r] # fill f (k + length r) rs"

text \<open>\<open>torch.rand(t.shape)\<close>\<close>

definition torch_rand :: "tensor \<Rightarrow> generator \<Rightarrow> tensor \<times> generator" where
  "torch_rand t gen =
     (fill (uniform_draws gen) (consumed gen) t,
      gen\<lparr>consumed := consumed gen + numel t\<rparr>)"

text \<open>
  \<open>torch.normal(mean, std)\<close> with a two-dimensional mean and a one-dimensional std: the
  shapes are broadcast (giving, at every position of the result, a mean and a standard
  deviation), a negative standard deviation is a RuntimeError, and the sample is the mean
  plus the standard deviation times a standard normal draw.
\<close>

definition torch_normal :: "tensor \<Rightarrow> vector \<Rightarrow> generator \<Rightarrow> error + (tensor \<times> generator)" where
  "torch_normal mean std gen =
     (if list_ex (\<lambda>s. s < 0) std then Inl RuntimeError
      else bind_result (elementwise Pair mean [std]) (\<lambda>mean_std.
           let noise = fill (normal_draws gen) (consumed gen) mean_std
           in Inr (map2 (map2 (\<lambda>(m, s) z. m + s * z)) mean_std noise,
                   gen\<lparr>consumed := consumed gen + numel mean_std\<rparr>)))"

section \<open>Data model\<close>

text \<open>Modelled from the spec: BehaviorSpec (mlagents_envs.base_env) describes the
  observation shapes and the action space.\<close>

datatype action_space = Continuous nat | Discrete "nat list"

record behavior_spec =
  observation_shapes :: "nat list list"
  action_space :: action_space

text \<open>Modelled from the spec: GAILSettings (mlagents.trainers.settings), the settings
  record the provider is constructed from.\<close>

record gail_settings =
  demo_path :: string
  learning_rate :: real
  encoding_size :: nat
  use_actions :: bool
  use_vail :: bool

text \<open>
  A mini-batch (AgentBuffer): named columns, one entry per experience. The type \<open>'v\<close> is
  the type of a column of visual observations. The column \<open>"done"\<close> holds one number per
  experience, as a tensor of shape \<open>(N, 1)\<close>: it is concatenated along dimension 1.
\<close>

record 'v agent_buffer =
  vector_obs :: tensor
  visual_obs :: "nat \<Rightarrow> 'v"
  actions :: tensor
  done_column :: tensor

text \<open>Modelled from the spec: the columns of a mini-batch have equal length, the number
  of experiences.\<close>

definition num_experiences :: "'v agent_buffer \<Rightarrow> nat" where
  "num_experiences b = length (vector_obs b)"

section \<open>DiscriminatorNetwork\<close>

definition gradient_penalty_weight :: real where "gradient_penalty_weight = 10"
definition z_size :: nat where "z_size = 128"
definition alpha :: real where "alpha = 5 / 10000"
definition mutual_information :: real where "mutual_information = 1 / 2"
definition EPSILON :: real where "EPSILON = 1 / 10000000"
definition initial_beta :: real where "initial_beta = 0"

text \<open>
  The modules of the network are collaborators (NetworkBody, ActionFlattener,
  linear_layer, Swish): each is the function its forward pass computes with its current
  weights. The estimator is \<open>linear_layer(n, 1)\<close> followed by \<open>torch.nn.Sigmoid\<close>: the
  linear layer has one output unit, it maps a row to one number, and the estimate is the
  float32 number nearest to the sigmoid of that number (it is 0 for a very negative
  number and 1 for a large one). The attributes \<open>z_sigma\<close>,
  \<open>z_mu_layer\<close> and \<open>beta\<close> exist only when the constructor saw \<open>use_vail\<close>.
\<close>

record 'v parameters =
  state_encoder :: "tensor list \<Rightarrow> 'v list \<Rightarrow> tensor"
  encoder :: "tensor \<Rightarrow> tensor"
  z_sigma :: "vector option"
  z_mu_layer :: "(tensor \<Rightarrow> tensor) option"
  estimator_linear :: "vector \<Rightarrow> real"

record 'v discriminator =
  policy_specs :: behavior_spec
  net_use_vail :: bool
  net_settings :: gail_settings
  n_vis :: nat
  action_flattener :: "tensor \<Rightarrow> tensor"
  params :: "'v parameters"
  beta :: "real option"

definition attribute :: "'a option \<Rightarrow> error + 'a" where
  "attribute a = (case a of None \<Rightarrow> Inl AttributeError | Some x \<Rightarrow> Inr x)"

definition sigmoid :: "real \<Rightarrow> real" where
  "sigmoid x = 1 / (1 + exp (- x))"

definition estimator :: "'v discriminator \<Rightarrow> tensor \<Rightarrow> tensor" where
  "estimator self hidden =
     map (\<lambda>row. [float32 (sigmoid (estimator_linear (params self) row))]) hidden"

definition get_action_input :: "'v discriminator \<Rightarrow> 'v agent_buffer \<Rightarrow> tensor" where
  "get_action_input self mini_batch = action_flattener self (actions mini_batch)"

definition get_state_encoding :: "'v discriminator \<Rightarrow> 'v agent_buffer \<Rightarrow> tensor" where
  "get_state_encoding self mini_batch =
     state_encoder (params self) [vector_obs mini_batch]
       (map (visual_obs mini_batch) [0 ..< n_vis self])"

definition compute_estimate ::
  "'v discriminator \<Rightarrow> 'v agent_buffer \<Rightarrow> bool \<Rightarrow> generator
     \<Rightarrow> error + (tensor \<times> tensor option \<times> generator)" where
  "compute_estimate self mini_batch use_vail_noise gen =
     (let encoder_input = get_state_encoding self mini_batch in
      bind_result
        (if use_actions (net_settings self)
         then cat_dim1 [encoder_input, get_action_input self mini_batch,
                        done_column mini_batch]
         else Inr encoder_input) (\<lambda>encoder_input.
      let hidden = encoder (params self) encoder_input in
      bind_result
        (if use_vail (net_settings self)
         then bind_result (attribute (z_mu_layer (params self))) (\<lambda>layer.
              bind_result (attribute (z_sigma (params self))) (\<lambda>sigma.
              let z_mu = layer hidden in
              bind_result
                (torch_normal z_mu (map (\<lambda>s. s * of_bool use_vail_noise) sigma) gen)
                (\<lambda>(hidden, gen'). Inr (hidden, Some z_mu, gen'))))
         else Inr (hidden, None, gen)) (\<lambda>(hidden, z_mu, gen').
      Inr (estimator self hidden, z_mu, gen'))))"

text \<open>
  \<open>compute_gradient_magnitude\<close>, first part (lines 223 to 242): the randomly
  interpolated encoder input. \<open>interpolate \<epsilon> p e\<close> is the expression
  \<open>\<epsilon> * p + (1 - \<epsilon>) * e\<close> that the method forms three times. \<open>interpolated_actions\<close>
  is the action group (lines 228 to 230 and 237 to 238), \<open>interpolated_dones\<close> the done
  group (lines 231 to 233 and 239), \<open>interpolated_input\<close> the whole of the first part.
  As in the source, \<open>expert_action\<close> is read from \<open>policy_batch\<close>.
\<close>

definition interpolate :: "tensor \<Rightarrow> tensor \<Rightarrow> tensor \<Rightarrow> error + tensor" where
  "interpolate epsilon policy_x expert_x =
     bind_result (elementwise (*) epsilon policy_x) (\<lambda>policy_part.
     bind_result (elementwise (*) (map (map (\<lambda>e. 1 - e)) epsilon) expert_x) (\<lambda>expert_part.
     elementwise (+) policy_part expert_part))"

definition interpolated_actions ::
  "'v discriminator \<Rightarrow> 'v agent_buffer \<Rightarrow> 'v agent_buffer \<Rightarrow> generator
     \<Rightarrow> (error + tensor) \<times> generator" where
  "interpolated_actions self policy_batch expert_batch gen =
     (let policy_action = get_action_input self policy_batch;
          expert_action = get_action_input self policy_batch;
          (action_epsilon, gen') = torch_rand policy_action gen
      in (interpolate action_epsilon policy_action expert_action, gen'))"

definition interpolated_dones ::
  "'v agent_buffer \<Rightarrow> 'v agent_buffer \<Rightarrow> generator \<Rightarrow> (error + tensor) \<times> generator" where
  "interpolated_dones policy_batch expert_batch gen =
     (let policy_dones = done_column policy_batch;
          expert_dones = done_column expert_batch;
          (dones_epsilon, gen') = torch_rand policy_dones gen
      in (interpolate dones_epsilon policy_dones expert_dones, gen'))"

definition interpolated_input ::
  "'v discriminator \<Rightarrow> 'v agent_buffer \<Rightarrow> 'v agent_buffer \<Rightarrow> generator
     \<Rightarrow> error + (tensor \<times> generator)" where
  "interpolated_input self policy_batch expert_batch gen =
     (let policy_obs = get_state_encoding self policy_batch;
          expert_obs = get_state_encoding self expert_batch;
          (obs_epsilon, gen1) = torch_rand policy_obs gen
      in bind_result (interpolate obs_epsilon policy_obs expert_obs) (\<lambda>encoder_input.
         if use_actions (net_settings self)
         then let (action_part, gen2) = interpolated_actions self policy_batch expert_batch gen1;
                  (dones_part, gen3) = interpolated_dones policy_batch expert_batch gen2
              in bind_result action_part (\<lambda>action_part.
                 bind_result dones_part (\<lambda>dones_part.
                 bind_result (cat_dim1 [encoder_input, action_part, dones_part])
                   (\<lambda>encoder_input. Inr (encoder_input, gen3))))
         else Inr (encoder_input, gen1)))"

text \<open>Second part: from the interpolated input to the scalar whose gradient is taken.\<close>

definition penalty_estimate ::
  "'v discriminator \<Rightarrow> tensor \<Rightarrow> generator \<Rightarrow> error + (real \<times> generator)" where
  "penalty_estimate self encoder_input gen =
     (let hidden = encoder (params self) encoder_input in
      bind_result
        (if use_vail (net_settings self)
         then let use_vail_noise = True in
              bind_result (attribute (z_mu_layer (params self))) (\<lambda>layer.
              bind_result (attribute (z_sigma (params self))) (\<lambda>sigma.
              let z_mu = layer hidden in
              torch_normal z_mu (map (\<lambda>s. s * of_bool use_vail_noise) sigma) gen))
         else Inr (hidden, gen)) (\<lambda>(hidden, gen').
      let hidden = estimator self hidden in
      bind_result (vec_mean (sum_dim1 hidden)) (\<lambda>estimate. Inr (estimate, gen'))))"

text \<open>
  \<open>torch.autograd.grad\<close> is a collaborator: \<open>autograd f x\<close> is the gradient at \<open>x\<close> of
  the scalar that the forward pass \<open>f\<close> computes.
\<close>

type_synonym autograd = "(tensor \<Rightarrow> error + real) \<Rightarrow> tensor \<Rightarrow> tensor"

definition compute_gradient_magnitude ::
  "autograd \<Rightarrow> 'v discriminator \<Rightarrow> 'v agent_buffer \<Rightarrow> 'v agent_buffer \<Rightarrow> generator
     \<Rightarrow> error + (real \<times> generator)" where
  "compute_gradient_magnitude grad self policy_batch expert_batch gen =
     bind_result (interpolated_input self policy_batch expert_batch gen)
       (\<lambda>(encoder_input, gen1).
     bind_result (penalty_estimate self encoder_input gen1) (\<lambda>(estimate, gen2).
     let gradient = grad (\<lambda>x. map_sum id fst (penalty_estimate self x gen1)) encoder_input;
         safe_norm = map (\<lambda>s. sqrt (s + EPSILON)) (sum_dim1 (map (map (\<lambda>g. g\<^sup>2)) gradient))
     in bind_result (vec_mean (map (\<lambda>n. (n - 1)\<^sup>2) safe_norm)) (\<lambda>gradient_mag.
        Inr (gradient_mag, gen2))))"

text \<open>\<open>compute_loss\<close>: the adversarial loss (lines 186 to 189), the KL loss (lines 193
  to 202), and the method itself.\<close>

definition adversarial_loss :: "tensor \<Rightarrow> tensor \<Rightarrow> error + real" where
  "adversarial_loss expert_estimate policy_estimate =
     bind_result (torch_log (map (map (\<lambda>e. e * (1 - EPSILON))) expert_estimate))
       (\<lambda>expert_log.
     bind_result (torch_log (map (map (\<lambda>e. 1 - e * (1 - EPSILON))) policy_estimate))
       (\<lambda>policy_log.
     bind_result (elementwise (+) expert_log policy_log) (\<lambda>total.
     bind_result (torch_mean total) (\<lambda>m. Inr (- m)))))"

definition kl_divergence :: "vector \<Rightarrow> tensor option \<Rightarrow> tensor option \<Rightarrow> error + real" where
  "kl_divergence sigma expert_mu policy_mu =
     (let sigma_sq = map (\<lambda>s. s\<^sup>2) sigma in
      bind_result (torch_log_vec sigma_sq) (\<lambda>log_sigma_sq.
      case expert_mu of None \<Rightarrow> Inl TypeError | Some expert_mu \<Rightarrow>
      bind_result (elementwise (-) [map (\<lambda>l. 1 + l) log_sigma_sq]
                     (map (map (\<lambda>m. (1 / 2) * m\<^sup>2)) expert_mu)) (\<lambda>t1.
      case policy_mu of None \<Rightarrow> Inl TypeError | Some policy_mu \<Rightarrow>
      bind_result (elementwise (-) t1 (map (map (\<lambda>m. (1 / 2) * m\<^sup>2)) policy_mu)) (\<lambda>t2.
      bind_result (elementwise (-) t2 [sigma_sq]) (\<lambda>t3.
      vec_mean (map uminus (sum_dim1 t3)))))))"

definition compute_loss ::
  "autograd \<Rightarrow> 'v discriminator \<Rightarrow> 'v agent_buffer \<Rightarrow> 'v agent_buffer \<Rightarrow> generator
     \<Rightarrow> error + ((real \<times> real \<times> real \<times> real option) \<times> 'v discriminator \<times> generator)" where
  "compute_loss grad self policy_batch expert_batch gen =
     bind_result (compute_estimate self policy_batch True gen)
       (\<lambda>(policy_estimate, policy_mu, gen1).
     bind_result (compute_estimate self expert_batch True gen1)
       (\<lambda>(expert_estimate, expert_mu, gen2).
     bind_result (adversarial_loss expert_estimate policy_estimate) (\<lambda>loss.
     bind_result
       (if use_vail (net_settings self)
        then bind_result (attribute (z_sigma (params self))) (\<lambda>sigma.
             bind_result (kl_divergence sigma expert_mu policy_mu) (\<lambda>kl_loss.
             bind_result (attribute (beta self)) (\<lambda>b.
             let vail_loss = b * (kl_loss - mutual_information);
                 self' = self\<lparr>beta :=
                   Some (max (b + alpha * (kl_loss - mutual_information)) 0)\<rparr>
             in Inr (loss + vail_loss, Some kl_loss, self'))))
        else Inr (loss, None, self)) (\<lambda>(loss, kl_loss, self').
     bind_result
       (if gradient_penalty_weight > 0
        then bind_result (compute_gradient_magnitude grad self' policy_batch expert_batch gen2)
               (\<lambda>(gradient_mag, gen3).
                  Inr (loss + gradient_penalty_weight * gradient_mag, gen3))
        else Inr (loss, gen2)) (\<lambda>(loss, gen3).
     bind_result (torch_mean policy_estimate) (\<lambda>policy_mean_estimate.
     bind_result (torch_mean expert_estimate) (\<lambda>expert_mean_estimate.
     Inr ((loss, policy_mean_estimate, expert_mean_estimate, kl_loss), self', gen3))))))))"

section \<open>GAILRewardProvider\<close>

text \<open>
  The collaborators of the provider: the base class constructor, the demonstration
  loader, the sampling of the demonstration buffer, the constructors of the network
  modules, the Adam optimizer and automatic differentiation. \<open>'b\<close> is what the base
  class keeps, \<open>'o\<close> the state of the optimizer, \<open>'d\<close> what the demonstration loader
  returns beside the buffer.
\<close>

datatype encoder_type = SIMPLE | NATURE_CNN | RESNET
datatype initialization = XavierGlorotUniform | KaimingHeNormal

record network_settings =
  normalize :: bool
  hidden_units :: nat
  num_layers :: nat
  vis_encode_type :: encoder_type
  memory :: "(nat \<times> nat) option"

record ('v, 'o, 'b, 'd) collaborators =
  base_reward_provider :: "behavior_spec \<Rightarrow> gail_settings \<Rightarrow> 'b"
  demo_to_buffer :: "string \<Rightarrow> nat \<Rightarrow> behavior_spec \<Rightarrow> error + ('d \<times> 'v agent_buffer)"
  sample_mini_batch ::
    "'v agent_buffer \<Rightarrow> nat \<Rightarrow> nat \<Rightarrow> generator \<Rightarrow> 'v agent_buffer \<times> generator"
  network_body ::
    "nat list list \<Rightarrow> network_settings \<Rightarrow> generator
       \<Rightarrow> ((tensor list \<Rightarrow> 'v list \<Rightarrow> tensor) \<times> nat) \<times> generator"
  make_action_flattener :: "behavior_spec \<Rightarrow> (tensor \<Rightarrow> tensor) \<times> nat"
  linear_layer ::
    "nat \<Rightarrow> nat \<Rightarrow> (initialization \<times> real) option \<Rightarrow> generator
       \<Rightarrow> (tensor \<Rightarrow> tensor) \<times> generator"
  linear_unit :: "nat \<Rightarrow> generator \<Rightarrow> (vector \<Rightarrow> real) \<times> generator"
  swish :: "tensor \<Rightarrow> tensor"
  adam :: "'v discriminator \<Rightarrow> real \<Rightarrow> 'o"
  optimizer_step ::
    "'o \<Rightarrow> 'v discriminator \<Rightarrow> 'v agent_buffer \<Rightarrow> 'v agent_buffer \<Rightarrow> generator
       \<Rightarrow> 'v parameters \<times> 'o"
  autograd_grad :: autograd

record ('v, 'o, 'b) gail_reward_provider =
  base_attributes :: 'b
  ignore_done :: bool
  discriminator_network :: "'v discriminator"
  demo_buffer :: "'v agent_buffer"
  optimizer :: 'o

text \<open>\<open>DiscriminatorNetwork.__init__\<close>\<close>

definition discriminator_init ::
  "('v, 'o, 'b, 'd) collaborators \<Rightarrow> behavior_spec \<Rightarrow> gail_settings \<Rightarrow> generator
     \<Rightarrow> 'v discriminator \<times> generator" where
  "discriminator_init ext specs settings gen =
     (let state_encoder_settings =
            \<lparr>normalize = False, hidden_units = encoding_size settings, num_layers = 2,
             vis_encode_type = SIMPLE, memory = None\<rparr>;
          ((body, visual_encoders), gen1) =
            network_body ext (observation_shapes specs) state_encoder_settings gen;
          (flattener, flattened_size) = make_action_flattener ext specs;
          encoder_input_size =
            (if use_actions settings then encoding_size settings + (flattened_size + 1)
             else encoding_size settings);
          (layer1, gen2) =
            linear_layer ext encoder_input_size (encoding_size settings) None gen1;
          (layer2, gen3) =
            linear_layer ext (encoding_size settings) (encoding_size settings) None gen2;
          estimator_input_size = (if use_vail settings then z_size else encoding_size settings);
          (mu_layer, gen4) =
            (if use_vail settings
             then let (l, g) = linear_layer ext (encoding_size settings) z_size
                                 (Some (KaimingHeNormal, 1 / 10)) gen3
                  in (Some l, g)
             else (None, gen3));
          (unit, gen5) = linear_unit ext estimator_input_size gen4
      in (\<lparr>policy_specs = specs, net_use_vail = use_vail settings, net_settings = settings,
           n_vis = visual_encoders, action_flattener = flattener,
           params = \<lparr>state_encoder = body,
                     encoder = swish ext \<circ> layer2 \<circ> swish ext \<circ> layer1,
                     z_sigma = (if use_vail settings then Some (replicate z_size 1) else None),
                     z_mu_layer = mu_layer,
                     estimator_linear = unit\<rparr>,
           beta = (if use_vail settings then Some initial_beta else None)\<rparr>, gen5))"

text \<open>\<open>GAILRewardProvider.__init__\<close>\<close>

definition init ::
  "('v, 'o, 'b, 'd) collaborators \<Rightarrow> behavior_spec \<Rightarrow> gail_settings \<Rightarrow> generator
     \<Rightarrow> error + (('v, 'o, 'b) gail_reward_provider \<times> generator)" where
  "init ext specs settings gen =
     (let base = base_reward_provider ext specs settings;
          (network, gen') = discriminator_init ext specs settings gen
      in bind_result (demo_to_buffer ext (demo_path settings) 1 specs) (\<lambda>(_, buffer).
         Inr (\<lparr>base_attributes = base, ignore_done = True,
               discriminator_network = network, demo_buffer = buffer,
               optimizer = adam ext network (learning_rate settings)\<rparr>, gen')))"

text \<open>
  \<open>evaluate\<close> (lines 29 to 43). The estimate is a float32 tensor and every operation on
  it rounds: the product with \<open>1.0 - EPSILON\<close> (a Python float, converted to float32 for
  the product), the difference from 1.0 and the logarithm. The negation is exact. The
  method assigns nothing: the provider it leaves is the provider it received.
\<close>

definition evaluate ::
  "('v, 'o, 'b) gail_reward_provider \<Rightarrow> 'v agent_buffer \<Rightarrow> generator
     \<Rightarrow> error + (vector \<times> ('v, 'o, 'b) gail_reward_provider \<times> generator)" where
  "evaluate self mini_batch gen =
     bind_result (compute_estimate (discriminator_network self) mini_batch False gen)
       (\<lambda>(estimates, _, gen').
     let scaled = map (\<lambda>e. float32 (e * float32 (1 - EPSILON))) (squeeze_dim1 estimates);
         argument = map (\<lambda>s. float32 (1 - s)) scaled
     in bind_result (torch_log32_vec argument)
          (\<lambda>logs. Inr (map uminus logs, self, gen')))"

definition update ::
  "('v, 'o, 'b, 'd) collaborators \<Rightarrow> ('v, 'o, 'b) gail_reward_provider \<Rightarrow> 'v agent_buffer
     \<Rightarrow> generator
     \<Rightarrow> error + ((string \<rightharpoonup> real) \<times> ('v, 'o, 'b) gail_reward_provider \<times> generator)" where
  "update ext self mini_batch gen =
     (let (expert_batch, gen1) =
            sample_mini_batch ext (demo_buffer self) (num_experiences mini_batch) 1 gen
      in bind_result
           (compute_loss (autograd_grad ext) (discriminator_network self) mini_batch
              expert_batch gen1)
           (\<lambda>((loss, policy_mean_estimate, expert_mean_estimate, kl_loss), network, gen2).
         let (params', optimizer') =
               optimizer_step ext (optimizer self) (discriminator_network self) mini_batch
                 expert_batch gen1;
             network' = network\<lparr>params := params'\<rparr>;
             stats_dict = [''Losses/GAIL Discriminator Loss'' \<mapsto> loss,
                           ''Policy/GAIL Policy Estimate'' \<mapsto> policy_mean_estimate,
                           ''Policy/GAIL Expert Estimate'' \<mapsto> expert_mean_estimate]
         in bind_result
              (if net_use_vail network'
               then bind_result (attribute (beta network')) (\<lambda>b.
                    bind_result (attribute kl_loss) (\<lambda>kl.
                    Inr (stats_dict(''Policy/GAIL Beta'' \<mapsto> b,
                                    ''Losses/GAIL KL Loss'' \<mapsto> kl))))
               else Inr stats_dict) (\<lambda>stats_dict.
            Inr (stats_dict,
                 self\<lparr>discriminator_network := network', optimizer := optimizer'\<rparr>,
                 gen2))))"

section \<open>Concrete inputs\<close>

text \<open>
  A small network on which the definitions can be run: no visual encoder, the state
  encoder returns the vector observations, the action flattener and the encoder are
  identities, the latent layer is the identity with one latent dimension, and the linear
  unit of the estimator answers 0 on every row.
\<close>

definition example_settings :: "bool \<Rightarrow> bool \<Rightarrow> gail_settings" where
  "example_settings actions_flag vail_flag =
     \<lparr>demo_path = ''expert.demo'', learning_rate = 3 / 10000, encoding_size = 1,
      use_actions = actions_flag, use_vail = vail_flag\<rparr>"

definition example_parameters :: "bool \<Rightarrow> unit parameters" where
  "example_parameters vail_flag =
     \<lparr>state_encoder = (\<lambda>vec_inputs vis_inputs. concat vec_inputs),
      encoder = (\<lambda>t. t),
      z_sigma = (if vail_flag then Some [1] else None),
      z_mu_layer = (if vail_flag then Some (\<lambda>t. t) else None),
      estimator_linear = (\<lambda>row. 0)\<rparr>"

definition example_network :: "bool \<Rightarrow> bool \<Rightarrow> unit discriminator" where
  "example_network actions_flag vail_flag =
     \<lparr>policy_specs = \<lparr>observation_shapes = [[1]], action_space = Continuous 1\<rparr>,
      net_use_vail = vail_flag,
      net_settings = example_settings actions_flag vail_flag,
      n_vis = 0,
      action_flattener = (\<lambda>t. t),
      params = example_parameters vail_flag,
      beta = (if vail_flag then Some 0 else None)\<rparr>"

definition policy_example :: "unit agent_buffer" where
  "policy_example =
     \<lparr>vector_obs = [[0]], visual_obs = (\<lambda>i. ()), actions = [[1]], done_column = [[0]]\<rparr>"

definition expert_example :: "unit agent_buffer" where
  "expert_example =
     \<lparr>vector_obs = [[0]], visual_obs = (\<lambda>i. ()), actions = [[0]], done_column = [[1]]\<rparr>"

definition example_generator :: generator where
  "example_generator =
     \<lparr>uniform_draws = (\<lambda>i. 1 / 2), normal_draws = (\<lambda>i. 1), consumed = 0\<rparr>"

definition other_generator :: generator where
  "other_generator =
     \<lparr>uniform_draws = (\<lambda>i. 1 / 4), normal_draws = (\<lambda>i. - 3), consumed = 7\<rparr>"

text \<open>Collaborators for the examples: the demonstration loader returns the expert batch,
  sampling returns the whole buffer, the gradient is zero everywhere and the optimizer
  step leaves the parameters as they are.\<close>

definition example_collaborators :: "(unit, unit, unit, unit) collaborators" where
  "example_collaborators =
     \<lparr>base_reward_provider = (\<lambda>specs settings. ()),
      demo_to_buffer = (\<lambda>path sequence_length specs.
        if sequence_length = 1 then Inr ((), expert_example) else Inl RuntimeError),
      sample_mini_batch = (\<lambda>buffer batch_size sequence_length gen. (buffer, gen)),
      network_body = (\<lambda>shapes settings gen.
        ((state_encoder (example_parameters False), 0), gen)),
      make_action_flattener = (\<lambda>specs. ((\<lambda>t. t), 1)),
      linear_layer = (\<lambda>n m init gen. ((\<lambda>t. t), gen)),
      linear_unit = (\<lambda>n gen. ((\<lambda>row. 0), gen)),
      swish = (\<lambda>t. t),
      adam = (\<lambda>network lr. ()),
      optimizer_step = (\<lambda>opt network policy_batch expert_batch gen. (params network, opt)),
      autograd_grad = (\<lambda>f x. map (map (\<lambda>e. 0)) x)\<rparr>"

definition example_provider :: "bool \<Rightarrow> bool \<Rightarrow> (unit, unit, unit) gail_reward_provider" where
  "example_provider actions_flag vail_flag =
     \<lparr>base_attributes = (), ignore_done = True,
      discriminator_network = example_network actions_flag vail_flag,
      demo_buffer = expert_example, optimizer = ()\<rparr>"

text \<open>A network whose linear unit answers the sum of the row, so that the vector
  observation of an experience is the number the sigmoid is applied to; two batches of
  two experiences for it.\<close>

definition logit_network :: "unit discriminator" where
  "logit_network =
     (example_network False False)
       \<lparr>params := (example_parameters False)\<lparr>estimator_linear := sum_list\<rparr>\<rparr>"

definition logit_provider :: "(unit, unit, unit) gail_reward_provider" where
  "logit_provider =
     \<lparr>base_attributes = (), ignore_done = True, discriminator_network = logit_network,
      demo_buffer = expert_example, optimizer = ()\<rparr>"

definition low_batch :: "unit agent_buffer" where
  "low_batch =
     \<lparr>vector_obs = [[- 60], [- 30]], visual_obs = (\<lambda>i. ()), actions = [[0], [0]],
      done_column = [[0], [0]]\<rparr>"

definition mixed_batch :: "unit agent_buffer" where
  "mixed_batch =
     \<lparr>vector_obs = [[0], [- 60]], visual_obs = (\<lambda>i. ()), actions = [[0], [0]],
      done_column = [[0], [0]]\<rparr>"

definition example_specs :: behavior_spec where
  "example_specs = \<lparr>observation_shapes = [[1]], action_space = Continuous 1\<rparr>"

section \<open>Basic facts\<close>

subsection \<open>Rounding to float32\<close>

lemma round_even_of_int [simp]: "round_even (of_int n) = n"
  by (simp add: round_even_def)

lemma round_even_bounds: "\<lfloor>y\<rfloor> \<le> round_even y \<and> round_even y \<le> \<lfloor>y\<rfloor> + 1"
  by (simp add: round_even_def Let_def)

lemma round_even_mono:
  assumes "x \<le> y"
  shows "round_even x \<le> round_even y"
proof (cases "\<lfloor>x\<rfloor> = \<lfloor>y\<rfloor>")
  case True
  have "x - of_int \<lfloor>x\<rfloor> \<le> y - of_int \<lfloor>y\<rfloor>"
    using assms True by simp
  then show ?thesis
    unfolding round_even_def Let_def True by auto
next
  case False
  have "\<lfloor>x\<rfloor> \<le> \<lfloor>y\<rfloor>" using assms by (rule floor_mono)
  with False have "\<lfloor>x\<rfloor> + 1 \<le> \<lfloor>y\<rfloor>" by simp
  then show ?thesis
    using round_even_bounds [of x] round_even_bounds [of y] by linarith
qed

lemma float32_ulp_pos [simp]: "0 < float32_ulp x"
  by (simp add: float32_ulp_def)

lemma float32_ulp_nonneg [simp]: "0 \<le> float32_ulp x"
  using float32_ulp_pos [of x] by (rule less_imp_le)

lemma exponent_upper:
  assumes "0 < x"
  shows "x < 2 powr of_int (float32_exponent x + 1)"
proof -
  have "log 2 x < of_int \<lfloor>log 2 x\<rfloor> + 1" by linarith
  also have "\<dots> \<le> of_int (float32_exponent x + 1)"
    by (simp add: float32_exponent_def)
  finally have "log 2 x < of_int (float32_exponent x + 1)" .
  then have "2 powr log 2 x < 2 powr of_int (float32_exponent x + 1)"
    by simp
  then show ?thesis using assms by simp
qed

lemma exponent_lower:
  assumes "0 < x" "- 126 < float32_exponent x"
  shows "2 powr of_int (float32_exponent x) \<le> x"
proof -
  have "float32_exponent x = \<lfloor>log 2 x\<rfloor>"
    using assms(2) by (simp add: float32_exponent_def max_def split: if_splits)
  then have "of_int (float32_exponent x) \<le> log 2 x" by simp
  then have "2 powr of_int (float32_exponent x) \<le> 2 powr log 2 x"
    by simp
  then show ?thesis using assms(1) by simp
qed

lemma exponent_mono:
  assumes "0 < x" "x \<le> y"
  shows "float32_exponent x \<le> float32_exponent y"
proof -
  have "log 2 x \<le> log 2 y" using assms by simp
  then have "\<lfloor>log 2 x\<rfloor> \<le> \<lfloor>log 2 y\<rfloor>" by (rule floor_mono)
  then show ?thesis by (simp add: float32_exponent_def)
qed

lemma ulp_times: "of_int m * float32_ulp x = of_int m * 2 powr of_int (float32_exponent x - 23)"
  by (simp add: float32_ulp_def)

lemma two_powr_split:
  "(2::real) powr of_int (e + 1) = 2 ^ 24 * 2 powr of_int (e - 23)"
proof -
  have "real_of_int (e + 1) = 24 + real_of_int (e - 23)" by simp
  then have "(2::real) powr of_int (e + 1) = 2 powr (24 + of_int (e - 23))"
    by (simp only:)
  also have "\<dots> = 2 powr 24 * 2 powr of_int (e - 23)" by (rule powr_add)
  also have "(2::real) powr 24 = 2 ^ 24"
    using powr_realpow [of "2::real" 24] by simp
  finally show ?thesis .
qed

lemma two_powr_split':
  "(2::real) powr of_int e = 2 ^ 23 * 2 powr of_int (e - 23)"
proof -
  have "real_of_int e = 23 + real_of_int (e - 23)" by simp
  then have "(2::real) powr of_int e = 2 powr (23 + of_int (e - 23))"
    by (simp only:)
  also have "\<dots> = 2 powr 23 * 2 powr of_int (e - 23)" by (rule powr_add)
  also have "(2::real) powr 23 = 2 ^ 23"
    using powr_realpow [of "2::real" 23] by simp
  finally show ?thesis .
qed

lemma round_even_numeral [simp]: "round_even (numeral n) = numeral n"
  using round_even_of_int [of "numeral n"] by simp

lemma round_even_zero [simp]: "round_even 0 = 0"
  using round_even_of_int [of 0] by simp

lemma scaled_less:
  assumes "x < c * u" "0 < u"
  shows "x / u < (c::real)"
  using assms by (simp add: divide_less_eq)

lemma scaled_le:
  assumes "c * u \<le> x" "0 < u"
  shows "(c::real) \<le> x / u"
  using assms by (simp add: le_divide_eq)

lemma nearest32_upper:
  assumes "0 < x"
  shows "nearest32 x \<le> 2 powr of_int (float32_exponent x + 1)"
proof -
  have "x < 2 ^ 24 * float32_ulp x"
    using exponent_upper [OF assms]
    unfolding two_powr_split float32_ulp_def .
  then have "x / float32_ulp x < 2 ^ 24"
    by (rule scaled_less) simp
  then have "x / float32_ulp x \<le> 16777216" by simp
  then have "round_even (x / float32_ulp x) \<le> round_even 16777216"
    by (rule round_even_mono)
  then have "round_even (x / float32_ulp x) \<le> 16777216" by simp
  then have "(of_int (round_even (x / float32_ulp x)) :: real) \<le> 16777216"
    by linarith
  then have "of_int (round_even (x / float32_ulp x)) * float32_ulp x
               \<le> 16777216 * float32_ulp x"
    by (rule mult_right_mono) simp
  then show ?thesis
    unfolding nearest32_def two_powr_split float32_ulp_def by simp
qed

lemma nearest32_lower:
  assumes "0 < x" "- 126 < float32_exponent x"
  shows "2 powr of_int (float32_exponent x) \<le> nearest32 x"
proof -
  have "2 ^ 23 * float32_ulp x \<le> x"
    using exponent_lower [OF assms]
    unfolding two_powr_split' [of "float32_exponent x"] float32_ulp_def .
  then have "2 ^ 23 \<le> x / float32_ulp x"
    by (rule scaled_le) simp
  then have "8388608 \<le> x / float32_ulp x" by simp
  then have "round_even 8388608 \<le> round_even (x / float32_ulp x)"
    by (rule round_even_mono)
  then have "8388608 \<le> round_even (x / float32_ulp x)" by simp
  then have "(8388608 :: real) \<le> of_int (round_even (x / float32_ulp x))"
    by linarith
  then have "8388608 * float32_ulp x
               \<le> of_int (round_even (x / float32_ulp x)) * float32_ulp x"
    by (rule mult_right_mono) simp
  then show ?thesis
    unfolding nearest32_def two_powr_split' [of "float32_exponent x"] float32_ulp_def
    by simp
qed

lemma nearest32_nonneg:
  assumes "0 < x"
  shows "0 \<le> nearest32 x"
proof -
  have "0 \<le> x / float32_ulp x"
    using assms by (intro divide_nonneg_pos) simp_all
  then have "round_even 0 \<le> round_even (x / float32_ulp x)"
    by (rule round_even_mono)
  then have "0 \<le> round_even (x / float32_ulp x)" by simp
  then show ?thesis by (simp add: nearest32_def)
qed

lemma nearest32_mono:
  assumes "0 < x" "x \<le> y"
  shows "nearest32 x \<le> nearest32 y"
proof (cases "float32_exponent x = float32_exponent y")
  case True
  then have u: "float32_ulp x = float32_ulp y" by (simp add: float32_ulp_def)
  have "x / float32_ulp y \<le> y / float32_ulp y"
    using assms(2) by (rule divide_right_mono) simp
  then have "round_even (x / float32_ulp y) \<le> round_even (y / float32_ulp y)"
    by (rule round_even_mono)
  then have "(of_int (round_even (x / float32_ulp y)) :: real)
               \<le> of_int (round_even (y / float32_ulp y))"
    by linarith
  then have "of_int (round_even (x / float32_ulp y)) * float32_ulp y
               \<le> of_int (round_even (y / float32_ulp y)) * float32_ulp y"
    by (rule mult_right_mono) simp
  then show ?thesis
    unfolding nearest32_def u .
next
  case False
  have y: "0 < y" using assms by simp
  have "float32_exponent x \<le> float32_exponent y"
    using assms by (rule exponent_mono)
  with False have lt: "float32_exponent x + 1 \<le> float32_exponent y" by simp
  have "- 126 \<le> float32_exponent x" by (simp add: float32_exponent_def)
  with lt have big: "- 126 < float32_exponent y" by simp
  have "nearest32 x \<le> 2 powr of_int (float32_exponent x + 1)"
    using assms(1) by (rule nearest32_upper)
  also have "\<dots> \<le> 2 powr of_int (float32_exponent y)"
    using lt by simp
  also have "\<dots> \<le> nearest32 y"
    using y big by (rule nearest32_lower)
  finally show ?thesis .
qed

lemma float32_mono:
  assumes "x \<le> y"
  shows "float32 x \<le> float32 y"
proof -
  consider "x < 0" "y < 0" | "x < 0" "y = 0" | "x < 0" "0 < y" | "x = 0" "y = 0"
    | "x = 0" "0 < y" | "0 < x" "0 < y"
    using assms by linarith
  then show ?thesis
  proof cases
    case 1
    then have "nearest32 (- y) \<le> nearest32 (- x)"
      using assms by (intro nearest32_mono) simp_all
    with 1 show ?thesis by (simp add: float32_def)
  next
    case 2
    then show ?thesis using nearest32_nonneg [of "- x"] by (simp add: float32_def)
  next
    case 3
    then show ?thesis
      using nearest32_nonneg [of "- x"] nearest32_nonneg [of y] by (simp add: float32_def)
  next
    case 4
    then show ?thesis by simp
  next
    case 5
    then show ?thesis using nearest32_nonneg [of y] by (simp add: float32_def)
  next
    case 6
    then show ?thesis using assms nearest32_mono [of x y] by (simp add: float32_def)
  qed
qed

lemma float32_zero [simp]: "float32 0 = 0"
  by (simp add: float32_def)

lemma float32_exact:
  assumes m: "2 ^ 23 \<le> m" "m < 2 ^ 24" and k: "- 126 \<le> k"
  shows "float32 (of_int m * 2 powr of_int (k - 23)) = of_int m * 2 powr of_int (k - 23)"
proof -
  let ?u = "2 powr of_int (k - 23) :: real"
  let ?x = "of_int m * ?u"
  have u: "0 < ?u" by simp
  have m1: "(2::real) ^ 23 \<le> of_int m"
    using m(1) by (metis of_int_le_iff of_int_numeral of_int_power)
  have m2: "(of_int m :: real) < 2 ^ 24"
    using m(2) by (metis of_int_less_iff of_int_numeral of_int_power)
  have mpos: "(0::real) < of_int m" using m(1) by simp
  have pos: "0 < ?x" using mpos u by (rule mult_pos_pos)
  have "2 ^ 23 * ?u \<le> ?x"
    using m1 by (rule mult_right_mono) simp
  then have lo: "2 powr of_int k \<le> ?x"
    unfolding two_powr_split' [of k] .
  have "?x < 2 ^ 24 * ?u"
    using m2 u by (rule mult_strict_right_mono)
  then have hi: "?x < 2 powr of_int (k + 1)"
    unfolding two_powr_split [of k] .
  have "\<lfloor>log 2 ?x\<rfloor> = k"
  proof (rule floor_unique)
    have "log 2 (2 powr of_int k) \<le> log 2 ?x"
      using lo pos log_le_cancel_iff [of 2 "2 powr of_int k" ?x] by simp
    then show "of_int k \<le> log 2 ?x" by simp
    have "log 2 ?x < log 2 (2 powr of_int (k + 1))"
      using hi pos log_less_cancel_iff [of 2 ?x "2 powr of_int (k + 1)"] by simp
    then show "log 2 ?x < of_int k + 1" by simp
  qed
  then have e: "float32_exponent ?x = k"
    using k by (simp add: float32_exponent_def)
  have "?x / ?u = of_int m" by simp
  then have "nearest32 ?x = ?x"
    unfolding nearest32_def float32_ulp_def e by (simp only: round_even_of_int)
  then show ?thesis using pos by (simp add: float32_def)
qed

lemma float32_one [simp]: "float32 1 = 1"
  using float32_exact [of "2 ^ 23" 0] powr_realpow [of "2::real" 23] 
  by (simp add: powr_minus)

lemma float32_half [simp]: "float32 (1 / 2) = 1 / 2"
  using float32_exact [of "2 ^ 23" "- 1"] powr_realpow [of "2::real" 24]
  by (simp add: powr_minus)


lemma float32_nonneg: "0 \<le> x \<Longrightarrow> 0 \<le> float32 x"
  using float32_mono [of 0 x] by simp

lemma float32_le_one: "x \<le> 1 \<Longrightarrow> float32 x \<le> 1"
  using float32_mono [of x 1] by simp

lemma float32_2_24 [simp]: "float32 (1 / 16777216) = 1 / 16777216"
  using float32_exact [of "2 ^ 23" "- 24"] by (simp add: powr_minus)

lemma float32_2_26 [simp]: "float32 (1 / 67108864) = 1 / 67108864"
  using float32_exact [of "2 ^ 23" "- 26"] by (simp add: powr_minus)

lemma float32_below_one [simp]: "float32 (16777215 / 16777216) = 16777215 / 16777216"
  using float32_exact [of "2 ^ 24 - 1" "- 1"] by (simp add: powr_minus)

lemma round_even_up:
  assumes "of_int n - 1 / 2 < y" "y < of_int n"
  shows "round_even y = n"
proof -
  have f: "\<lfloor>y\<rfloor> = n - 1"
    using assms by (intro floor_unique) simp_all
  have "1 / 2 < y - of_int (n - 1)" using assms(1) by simp
  then show ?thesis
    unfolding round_even_def Let_def f by simp
qed

lemma float32_round_to_one:
  assumes "1 - 1 / 33554432 < x" "x \<le> 1"
  shows "float32 x = 1"
proof (cases "x = 1")
  case True
  then show ?thesis by simp
next
  case False
  with assms have lt: "x < 1" by simp
  have pos: "0 < x" using assms(1) by simp
  have "\<lfloor>log 2 x\<rfloor> = - 1"
  proof (rule floor_unique)
    have "1 / 2 \<le> x" using assms(1) by simp
    then have "log 2 (1 / 2) \<le> log 2 x"
      using log_le_cancel_iff [of 2 "1 / 2" x] pos by simp
    then show "of_int (- 1) \<le> log 2 x" by (simp add: log_divide)
    have "log 2 x < log 2 1"
      using log_less_cancel_iff [of 2 x 1] pos lt by simp
    then show "log 2 x < of_int (- 1) + 1" by simp
  qed
  then have e: "float32_exponent x = - 1"
    by (simp add: float32_exponent_def)
  have u: "float32_ulp x = 1 / 16777216"
    by (simp add: float32_ulp_def e powr_minus)
  have "round_even (x / float32_ulp x) = 16777216"
    unfolding u using assms(1) lt by (intro round_even_up) simp_all
  then have "nearest32 x = 1"
    by (simp add: nearest32_def u)
  then show ?thesis using pos by (simp add: float32_def)
qed

lemma c32_bounds:
  "1 / 2 \<le> float32 (1 - EPSILON) \<and> float32 (1 - EPSILON) \<le> 16777215 / 16777216"
proof
  have "float32 (1 / 2) \<le> float32 (1 - EPSILON)"
    by (rule float32_mono) (simp add: EPSILON_def)
  then show "1 / 2 \<le> float32 (1 - EPSILON)" by simp
  have "float32 (1 - EPSILON) \<le> float32 (16777215 / 16777216)"
    by (rule float32_mono) (simp add: EPSILON_def)
  then show "float32 (1 - EPSILON) \<le> 16777215 / 16777216" by simp
qed

lemma scaled_bounds:
  assumes "0 \<le> e" "e \<le> 1"
  shows "0 \<le> float32 (e * float32 (1 - EPSILON))
         \<and> float32 (e * float32 (1 - EPSILON)) \<le> 16777215 / 16777216"
proof
  have c: "0 \<le> float32 (1 - EPSILON)" "float32 (1 - EPSILON) \<le> 16777215 / 16777216"
    using c32_bounds by simp_all
  have "0 \<le> e * float32 (1 - EPSILON)" using assms(1) c(1) by simp
  then show "0 \<le> float32 (e * float32 (1 - EPSILON))" by (rule float32_nonneg)
  have "e * float32 (1 - EPSILON) \<le> 1 * float32 (1 - EPSILON)"
    using assms(2) c(1) by (rule mult_right_mono)
  then have "e * float32 (1 - EPSILON) \<le> 16777215 / 16777216" using c(2) by simp
  then have "float32 (e * float32 (1 - EPSILON)) \<le> float32 (16777215 / 16777216)"
    by (rule float32_mono)
  then show "float32 (e * float32 (1 - EPSILON)) \<le> 16777215 / 16777216" by simp
qed

lemma log_argument_bounds:
  assumes "0 \<le> e" "e \<le> 1"
  shows "1 / 16777216 \<le> float32 (1 - float32 (e * float32 (1 - EPSILON)))
         \<and> float32 (1 - float32 (e * float32 (1 - EPSILON))) \<le> 1"
proof
  note s = scaled_bounds [OF assms]
  have "float32 (1 / 16777216) \<le> float32 (1 - float32 (e * float32 (1 - EPSILON)))"
    by (rule float32_mono) (use s in simp)
  then show "1 / 16777216 \<le> float32 (1 - float32 (e * float32 (1 - EPSILON)))" by simp
  show "float32 (1 - float32 (e * float32 (1 - EPSILON))) \<le> 1"
    by (rule float32_le_one) (use s in simp)
qed

lemma reward_nonneg:
  assumes "0 \<le> e" "e \<le> 1"
  shows "0 \<le> - float32 (ln (float32 (1 - float32 (e * float32 (1 - EPSILON)))))"
proof -
  note a = log_argument_bounds [OF assms]
  then have "0 < float32 (1 - float32 (e * float32 (1 - EPSILON)))" by simp
  with a have "ln (float32 (1 - float32 (e * float32 (1 - EPSILON)))) \<le> 0"
    by (simp only: ln_le_zero_iff)
  then have "float32 (ln (float32 (1 - float32 (e * float32 (1 - EPSILON))))) \<le> float32 0"
    by (rule float32_mono)
  then show ?thesis by simp
qed

lemma reward_mono:
  assumes "0 \<le> e1" "e1 \<le> e2" "e2 \<le> 1"
  shows "- float32 (ln (float32 (1 - float32 (e1 * float32 (1 - EPSILON)))))
         \<le> - float32 (ln (float32 (1 - float32 (e2 * float32 (1 - EPSILON)))))"
proof -
  have c: "0 \<le> float32 (1 - EPSILON)" using c32_bounds by simp
  have "e1 * float32 (1 - EPSILON) \<le> e2 * float32 (1 - EPSILON)"
    using assms(2) c by (rule mult_right_mono)
  then have "float32 (e1 * float32 (1 - EPSILON)) \<le> float32 (e2 * float32 (1 - EPSILON))"
    by (rule float32_mono)
  then have "1 - float32 (e2 * float32 (1 - EPSILON)) \<le> 1 - float32 (e1 * float32 (1 - EPSILON))"
    by simp
  then have m: "float32 (1 - float32 (e2 * float32 (1 - EPSILON)))
              \<le> float32 (1 - float32 (e1 * float32 (1 - EPSILON)))"
    by (rule float32_mono)
  have "0 \<le> e2" using assms by simp
  from log_argument_bounds [OF this assms(3)]
  have "0 < float32 (1 - float32 (e2 * float32 (1 - EPSILON)))" by simp
  with m have "ln (float32 (1 - float32 (e2 * float32 (1 - EPSILON))))
              \<le> ln (float32 (1 - float32 (e1 * float32 (1 - EPSILON))))"
    by (intro ln_mono) simp_all
  then have "float32 (ln (float32 (1 - float32 (e2 * float32 (1 - EPSILON)))))
              \<le> float32 (ln (float32 (1 - float32 (e1 * float32 (1 - EPSILON)))))"
    by (rule float32_mono)
  then show ?thesis by simp
qed

lemma reward_small_zero:
  assumes "0 \<le> e" "e \<le> 1 / 67108864"
  shows "float32 (1 - float32 (e * float32 (1 - EPSILON))) = 1
         \<and> - float32 (ln (float32 (1 - float32 (e * float32 (1 - EPSILON))))) = 0"
proof -
  have c: "0 \<le> float32 (1 - EPSILON)" "float32 (1 - EPSILON) \<le> 1"
    using c32_bounds by simp_all
  have "e * float32 (1 - EPSILON) \<le> e * 1"
    using c(2) assms(1) by (rule mult_left_mono)
  then have "e * float32 (1 - EPSILON) \<le> 1 / 67108864" using assms(2) by simp
  then have "float32 (e * float32 (1 - EPSILON)) \<le> float32 (1 / 67108864)"
    by (rule float32_mono)
  then have up: "float32 (e * float32 (1 - EPSILON)) \<le> 1 / 67108864" by simp
  have "0 \<le> e * float32 (1 - EPSILON)" using assms(1) c(1) by simp
  then have lo: "0 \<le> float32 (e * float32 (1 - EPSILON))" by (rule float32_nonneg)
  have one: "float32 (1 - float32 (e * float32 (1 - EPSILON))) = 1"
    by (rule float32_round_to_one) (use up lo in simp_all)
  then show ?thesis by simp
qed

subsection \<open>The network and its tensors\<close>

lemma bind_result_simps [simp]:
  "bind_result (Inr x) f = f x"
  "bind_result (Inl e) f = Inl e"
  by (simp_all add: bind_result_def)

lemma bind_result_eq_Inr:
  "bind_result m f = Inr y \<longleftrightarrow> (\<exists>x. m = Inr x \<and> f x = Inr y)"
  by (cases m) simp_all

lemma sigmoid_bounds: "0 < sigmoid x \<and> sigmoid x < 1"
proof -
  have e: "0 < exp (- x)" by simp
  then have p: "0 < 1 + exp (- x)" by (simp add: add_pos_pos)
  have "1 < 1 + exp (- x)" using e by simp
  then have "1 / (1 + exp (- x)) < 1" using p by (simp add: divide_less_eq)
  then show ?thesis unfolding sigmoid_def using p by simp
qed

lemma estimate_range: "0 \<le> float32 (sigmoid x) \<and> float32 (sigmoid x) \<le> 1"
proof
  have "0 \<le> sigmoid x" "sigmoid x \<le> 1"
    using sigmoid_bounds [of x] by simp_all
  then show "0 \<le> float32 (sigmoid x)" "float32 (sigmoid x) \<le> 1"
    by (simp_all add: float32_nonneg float32_le_one)
qed

lemma squeeze_estimator:
  "squeeze_dim1 (estimator self h)
     = map (\<lambda>row. float32 (sigmoid (estimator_linear (params self) row))) h"
  unfolding squeeze_dim1_def estimator_def by (induction h) simp_all

lemma length_estimator [simp]: "length (estimator self h) = length h"
  by (simp add: estimator_def)

lemma compute_estimate_estimator:
  assumes "compute_estimate self b noise gen = Inr (est, zmu, gen')"
  shows "\<exists>h. est = estimator self h"
  using assms unfolding compute_estimate_def Let_def
  by (auto simp: bind_result_eq_Inr split: if_splits prod.splits)

lemma estimate_bounds:
  "list_all (\<lambda>e. 0 \<le> e \<and> e \<le> 1) (squeeze_dim1 (estimator self h))"
  by (simp add: squeeze_estimator list_all_iff estimate_range)

lemma evaluate_value:
  assumes "compute_estimate (discriminator_network self) b False gen = Inr (est, zmu, gen')"
  shows "evaluate self b gen =
           Inr (map (\<lambda>e. - float32 (ln (float32 (1 - float32 (e * float32 (1 - EPSILON)))))) (squeeze_dim1 est), self, gen')
         \<and> length (squeeze_dim1 est) = length est
         \<and> list_all (\<lambda>e. 0 \<le> e \<and> e \<le> 1) (squeeze_dim1 est)"
proof -
  obtain h where h: "est = estimator (discriminator_network self) h"
    using compute_estimate_estimator [OF assms] by blast
  have b: "list_all (\<lambda>e. 0 \<le> e \<and> e \<le> 1) (squeeze_dim1 est)"
    unfolding h by (rule estimate_bounds)
  then have pos: "list_all (\<lambda>x. 0 < x)
      (map (\<lambda>s. float32 (1 - s))
         (map (\<lambda>e. float32 (e * float32 (1 - EPSILON))) (squeeze_dim1 est)))"
  proof (induction "squeeze_dim1 est")
    case Nil
    then show ?case by simp
  next
    case (Cons e es)
    then show ?case
      using log_argument_bounds by (auto simp: list_all_iff) fastforce
  qed
  have len: "length (squeeze_dim1 est) = length est"
    unfolding h by (simp add: squeeze_estimator)
  have "evaluate self b gen =
           Inr (map (\<lambda>e. - float32 (ln (float32 (1 - float32 (e * float32 (1 - EPSILON)))))) (squeeze_dim1 est), self, gen')"
    unfolding evaluate_def assms Let_def
    using pos by (simp add: torch_log32_vec_def comp_def)
  with len b show ?thesis by simp
qed

lemma sigmoid_zero [simp]: "sigmoid 0 = 1 / 2"
  by (simp add: sigmoid_def)

lemma attribute_eq_Inr [simp]: "attribute a = Inr x \<longleftrightarrow> a = Some x"
  by (cases a) (simp_all add: attribute_def)

lemma attribute_simps [simp]:
  "attribute (Some x) = Inr x" "attribute None = Inl AttributeError"
  by (simp_all add: attribute_def)

lemma gradient_penalty_weight_pos [simp]: "0 < gradient_penalty_weight"
  by (simp add: gradient_penalty_weight_def)

lemma compute_loss_Inr:
  assumes "compute_loss grad self pb eb gen = Inr ((loss, pm, em, kl), self', gen')"
  obtains pe pmu g1 ee emu g2 adv vl gm where
    "compute_estimate self pb True gen = Inr (pe, pmu, g1)"
    "compute_estimate self eb True g1 = Inr (ee, emu, g2)"
    "adversarial_loss ee pe = Inr adv"
    "if use_vail (net_settings self)
     then \<exists>sigma k b. z_sigma (params self) = Some sigma
            \<and> kl_divergence sigma emu pmu = Inr k \<and> beta self = Some b \<and> kl = Some k
            \<and> vl = b * (k - mutual_information)
            \<and> self' = self\<lparr>beta := Some (max (b + alpha * (k - mutual_information)) 0)\<rparr>
     else kl = None \<and> vl = 0 \<and> self' = self"
    "compute_gradient_magnitude grad self' pb eb g2 = Inr (gm, gen')"
    "loss = adv + vl + gradient_penalty_weight * gm"
    "torch_mean pe = Inr pm" "torch_mean ee = Inr em"
  using assms unfolding compute_loss_def
  by (auto simp: bind_result_eq_Inr Let_def split: if_splits)

lemma update_Inr:
  assumes "update ext p mb gen = Inr (stats, p', gen')"
  obtains eb g1 loss pm em kl net params' opt' where
    "sample_mini_batch ext (demo_buffer p) (num_experiences mb) 1 gen = (eb, g1)"
    "compute_loss (autograd_grad ext) (discriminator_network p) mb eb g1
       = Inr ((loss, pm, em, kl), net, gen')"
    "optimizer_step ext (optimizer p) (discriminator_network p) mb eb g1 = (params', opt')"
    "p' = p\<lparr>discriminator_network := net\<lparr>params := params'\<rparr>, optimizer := opt'\<rparr>"
    "if net_use_vail net
     then \<exists>b k. beta net = Some b \<and> kl = Some k
            \<and> stats = [''Losses/GAIL Discriminator Loss'' \<mapsto> loss,
                       ''Policy/GAIL Policy Estimate'' \<mapsto> pm,
                       ''Policy/GAIL Expert Estimate'' \<mapsto> em,
                       ''Policy/GAIL Beta'' \<mapsto> b,
                       ''Losses/GAIL KL Loss'' \<mapsto> k]
     else stats = [''Losses/GAIL Discriminator Loss'' \<mapsto> loss,
                   ''Policy/GAIL Policy Estimate'' \<mapsto> pm,
                   ''Policy/GAIL Expert Estimate'' \<mapsto> em]"
proof -
  obtain eb g1 where s: "sample_mini_batch ext (demo_buffer p) (num_experiences mb) 1 gen = (eb, g1)"
    by fastforce
  obtain params' opt' where
    o: "optimizer_step ext (optimizer p) (discriminator_network p) mb eb g1 = (params', opt')"
    by fastforce
  from assms s obtain r where
    c: "compute_loss (autograd_grad ext) (discriminator_network p) mb eb g1 = Inr r"
    unfolding update_def by (auto simp: bind_result_eq_Inr)
  obtain loss pm em kl net g2 where r: "r = ((loss, pm, em, kl), net, g2)"
    by (metis prod_cases3 surj_pair)
  let ?base = "[''Losses/GAIL Discriminator Loss'' \<mapsto> loss,
                ''Policy/GAIL Policy Estimate'' \<mapsto> pm,
                ''Policy/GAIL Expert Estimate'' \<mapsto> em]"
  have u: "bind_result
             (if net_use_vail net
              then bind_result (attribute (beta net)) (\<lambda>b.
                   bind_result (attribute kl) (\<lambda>k.
                   Inr (?base(''Policy/GAIL Beta'' \<mapsto> b, ''Losses/GAIL KL Loss'' \<mapsto> k))))
              else Inr ?base)
             (\<lambda>stats_dict. Inr (stats_dict,
                p\<lparr>discriminator_network := net\<lparr>params := params'\<rparr>, optimizer := opt'\<rparr>,
                g2))
           = Inr (stats, p', gen')"
    using assms s unfolding update_def by (auto simp: o c r Let_def split: if_splits)
  then have g: "g2 = gen'"
    and p: "p' = p\<lparr>discriminator_network := net\<lparr>params := params'\<rparr>, optimizer := opt'\<rparr>"
    by (auto simp: bind_result_eq_Inr)
  have st: "if net_use_vail net
     then \<exists>b k. beta net = Some b \<and> kl = Some k
            \<and> stats = ?base(''Policy/GAIL Beta'' \<mapsto> b, ''Losses/GAIL KL Loss'' \<mapsto> k)
     else stats = ?base"
    using u by (auto simp: bind_result_eq_Inr split: if_splits)
  show thesis
    using that [OF s c [unfolded r g] o p] st by simp
qed

lemma compute_loss_frame:
  assumes "compute_loss grad self pb eb gen = Inr ((loss, pm, em, kl), self', gen')"
  shows "net_use_vail self' = net_use_vail self" "net_settings self' = net_settings self"
    "params self' = params self"
  using assms by (elim compute_loss_Inr; auto split: if_splits)+

lemma dom_three: "dom [a \<mapsto> x, b \<mapsto> y, c \<mapsto> z] = {a, b, c}"
  by auto

lemma dom_five: "dom [a \<mapsto> x, b \<mapsto> y, c \<mapsto> z, d \<mapsto> u, e \<mapsto> w] = {a, b, c, d, e}"
  by auto

lemma expand_same [simp]: "expand (length xs) xs = xs"
  by (simp add: expand_def)

lemma broadcast2_same:
  "length xs = length ys \<Longrightarrow> broadcast2 f xs ys = Inr (map2 f xs ys)"
  by (simp add: broadcast2_def compatible_def broadcast_size_def expand_def)

lemma map2_replicate: "map2 g xs (replicate (length xs) s) = map (\<lambda>r. g r s) xs"
  by (induction xs) simp_all

lemma broadcast2_row: "broadcast2 g a [s] = Inr (map (\<lambda>r. g r s) a)"
proof (cases "length a = 1")
  case True
  then obtain r where "a = [r]" by (cases a) auto
  then show ?thesis
    by (simp add: broadcast2_def compatible_def broadcast_size_def expand_def)
next
  case False
  then show ?thesis
    by (simp add: broadcast2_def compatible_def broadcast_size_def expand_def
          map2_replicate)
qed

lemma collect_Inr: "collect (map (\<lambda>r. Inr (h r)) a) = Inr (map h a)"
  by (induction a) simp_all

lemma collect_map2_same:
  "list_all2 (\<lambda>r s. length r = length s) a b \<Longrightarrow>
   collect (map2 (broadcast2 f) a b) = Inr (map2 (map2 f) a b)"
  by (induction a b rule: list_all2_induct) (simp_all add: broadcast2_same)

lemma elementwise_same:
  "list_all2 (\<lambda>r s. length r = length s) a b \<Longrightarrow>
   elementwise f a b = Inr (map2 (map2 f) a b)"
  by (simp add: elementwise_def broadcast2_same list_all2_lengthD collect_map2_same)

lemma elementwise_row:
  "elementwise f a [s] = collect (map (\<lambda>r. broadcast2 f r s) a)"
  by (simp add: elementwise_def broadcast2_row)

lemma set_expand: "set (expand n xs) \<subseteq> set xs"
  by (auto simp: expand_def)

lemma map2_Pair_snd: "p \<in> set (map2 Pair xs ys) \<Longrightarrow> snd p \<in> set ys"
proof -
  assume "p \<in> set (map2 Pair xs ys)"
  then have "(fst p, snd p) \<in> set (zip xs ys)"
    by simp
  then show ?thesis by (rule set_zip_rightD)
qed

lemma broadcast2_Pair_snd:
  assumes "broadcast2 Pair r z = Inr row" "p \<in> set row"
  shows "snd p \<in> set z"
proof (cases "compatible (length r) (length z)")
  case False
  then have "broadcast2 Pair r z = Inl RuntimeError"
    by (simp add: broadcast2_def)
  with assms(1) show ?thesis by simp
next
  case True
  define n where "n = broadcast_size (length r) (length z)"
  from True have "broadcast2 Pair r z = Inr (map2 Pair (expand n r) (expand n z))"
    unfolding broadcast2_def n_def Let_def by (simp only: if_True)
  then have "Inr row = (Inr (map2 Pair (expand n r) (expand n z)) :: error + _)"
    unfolding assms(1) .
  then have "row = map2 Pair (expand n r) (expand n z)"
    by (simp only: sum.inject)
  then have "p \<in> set (map2 Pair (expand n r) (expand n z))"
    using assms(2) by (simp only:)
  then have "snd p \<in> set (expand n z)"
    by (rule map2_Pair_snd)
  then show ?thesis
    using set_expand [of n z] by (rule rev_subsetD)
qed

lemma collect_map_Inr_D:
  "collect (map g a) = Inr ms \<Longrightarrow> row \<in> set ms \<Longrightarrow> \<exists>r. g r = Inr row"
proof (induction a arbitrary: ms)
  case Nil
  then show ?case by simp
next
  case (Cons x a)
  from Cons.prems(1) obtain y ys where
    y: "g x = Inr y" and ys: "collect (map g a) = Inr ys" and ms: "ms = y # ys"
    by (auto simp: bind_result_eq_Inr)
  show ?case
  proof (cases "row = y")
    case True
    with y show ?thesis by blast
  next
    case False
    with Cons.prems(2) ms have "row \<in> set ys" by simp
    with Cons.IH [OF ys] show ?thesis by blast
  qed
qed

lemma elementwise_Pair_snd:
  assumes "elementwise Pair a [z] = Inr ms" "row \<in> set ms" "p \<in> set row"
  shows "snd p \<in> set z"
proof -
  have "collect (map (\<lambda>r. broadcast2 Pair r z) a) = Inr ms"
    using assms(1) by (simp add: elementwise_row)
  from collect_map_Inr_D [of "\<lambda>r. broadcast2 Pair r z" a ms row, OF this assms(2)]
  obtain r where "broadcast2 Pair r z = Inr row" by blast
  then show ?thesis using assms(3) broadcast2_Pair_snd by blast
qed

lemma map2_zero_std:
  assumes "\<And>p. p \<in> set row \<Longrightarrow> snd p = (0::real)" "length zs = length row"
  shows "map2 (\<lambda>(m, s) z. m + s * z) row zs = map fst row"
  using assms(2) assms(1)
  by (induction zs row rule: list_induct2) (auto simp: case_prod_beta)

lemma fill_zero_std:
  assumes "\<And>row p. row \<in> set ms \<Longrightarrow> p \<in> set row \<Longrightarrow> snd p = (0::real)"
  shows "map2 (map2 (\<lambda>(m, s) z. m + s * z)) ms (fill f k ms) = map (map fst) ms"
  using assms
proof (induction ms arbitrary: k)
  case Nil
  then show ?case by simp
next
  case (Cons row ms)
  have "map2 (\<lambda>(m, s) z. m + s * z) row (map f [k..<k + length row]) = map fst row"
    by (rule map2_zero_std) (use Cons.prems in auto)
  moreover have "map2 (map2 (\<lambda>(m, s) z. m + s * z)) ms (fill f (k + length row) ms)
                   = map (map fst) ms"
    by (rule Cons.IH) (use Cons.prems in auto)
  ultimately show ?case by simp
qed

lemma torch_normal_zero:
  assumes "set std \<subseteq> {0}"
  shows "torch_normal mean std gen =
           bind_result (elementwise Pair mean [std]) (\<lambda>ms.
             Inr (map (map fst) ms, gen\<lparr>consumed := consumed gen + numel ms\<rparr>))"
proof -
  have n: "\<not> list_ex (\<lambda>s. s < 0) std"
    using assms by (auto simp: list_ex_iff)
  show ?thesis
  proof (cases "elementwise Pair mean [std]")
    case (Inl e)
    then show ?thesis by (simp add: torch_normal_def n)
  next
    case (Inr ms)
    have "\<And>row p. row \<in> set ms \<Longrightarrow> p \<in> set row \<Longrightarrow> snd p = 0"
      using elementwise_Pair_snd [OF Inr] assms by blast
    then have "map2 (map2 (\<lambda>(m, s) z. m + s * z)) ms
                 (fill (normal_draws gen) (consumed gen) ms) = map (map fst) ms"
      by (rule fill_zero_std)
    then show ?thesis by (simp add: torch_normal_def n Inr)
  qed
qed

lemma torch_normal_zeros:
  "torch_normal mean (map (\<lambda>s. 0) sigma) gen =
     bind_result (elementwise Pair mean [map (\<lambda>s. 0::real) sigma]) (\<lambda>ms.
       Inr (map (map fst) ms, gen\<lparr>consumed := consumed gen + numel ms\<rparr>))"
proof -
  have "set (map (\<lambda>s. 0::real) sigma) \<subseteq> {0}" by auto
  then show ?thesis by (rule torch_normal_zero)
qed

lemma latent_no_noise:
  fixes self :: "'v discriminator"
  defines "latent \<equiv> \<lambda>hidden gen.
     (if use_vail (net_settings self)
      then bind_result (attribute (z_mu_layer (params self))) (\<lambda>layer.
           bind_result (attribute (z_sigma (params self))) (\<lambda>sigma.
           let z_mu = layer hidden in
           bind_result (torch_normal z_mu (map (\<lambda>s. s * of_bool False) sigma) gen)
             (\<lambda>(hidden, gen'). Inr (hidden, Some z_mu, gen'))))
      else Inr (hidden, None, gen))"
  shows "map_sum id (\<lambda>(h, z, g). (h, z)) (latent hidden gen1)
           = map_sum id (\<lambda>(h, z, g). (h, z)) (latent hidden gen2)"
proof (cases "use_vail (net_settings self)")
  case False
  then show ?thesis by (simp add: latent_def)
next
  case True
  show ?thesis
  proof (cases "z_mu_layer (params self)")
    case None
    then show ?thesis by (simp add: latent_def True)
  next
    case (Some layer)
    note layer = this
    show ?thesis
    proof (cases "z_sigma (params self)")
      case None
      then show ?thesis by (simp add: latent_def True layer)
    next
      case (Some sigma)
      show ?thesis
        by (cases "elementwise Pair (layer hidden) [map (\<lambda>s. 0::real) sigma]")
           (simp_all add: latent_def True layer Some torch_normal_zeros)
    qed
  qed
qed

lemma map_sum_bind_result:
  assumes m: "map_sum id p m1 = map_sum id p m2"
    and f: "\<And>x y. p x = p y \<Longrightarrow> map_sum id q (f x) = map_sum id q (f y)"
  shows "map_sum id q (bind_result m1 f) = map_sum id q (bind_result m2 f)"
proof (cases m1)
  case (Inl e1)
  with m obtain e2 where "m2 = Inl e2" "e1 = e2"
    by (cases m2) simp_all
  with Inl show ?thesis by simp
next
  case (Inr x)
  with m obtain y where y: "m2 = Inr y" "p x = p y"
    by (cases m2) simp_all
  from f [OF y(2)] show ?thesis
    by (simp only: Inr y(1) bind_result_simps)
qed

lemma compute_estimate_no_noise:
  "map_sum id (\<lambda>(est, z_mu, g). (est, z_mu)) (compute_estimate self b False gen1)
     = map_sum id (\<lambda>(est, z_mu, g). (est, z_mu)) (compute_estimate self b False gen2)"
proof -
  have "map_sum id (\<lambda>(est, z_mu, g). (est, z_mu))
          (bind_result m (\<lambda>inp. bind_result (l1 inp)
             (\<lambda>(hidden, z_mu, gen'). Inr (estimator self hidden, z_mu, gen'))))
        = map_sum id (\<lambda>(est, z_mu, g). (est, z_mu))
          (bind_result m (\<lambda>inp. bind_result (l2 inp)
             (\<lambda>(hidden, z_mu, gen'). Inr (estimator self hidden, z_mu, gen'))))"
    if "\<And>inp. map_sum id (\<lambda>(h, z, g). (h, z)) (l1 inp)
                 = map_sum id (\<lambda>(h, z, g). (h, z)) (l2 inp)"
    for m :: "error + tensor" and l1 l2 :: "tensor \<Rightarrow> error + tensor \<times> tensor option \<times> generator"
  proof (cases m)
    case (Inl e)
    then show ?thesis by simp
  next
    case (Inr inp)
    show ?thesis
      unfolding Inr bind_result_simps
      by (rule map_sum_bind_result [OF that [of inp]]) auto
  qed
  from this [OF latent_no_noise] show ?thesis
    unfolding compute_estimate_def Let_def .
qed

lemma elementwise_Pair_rows:
  assumes "list_all (\<lambda>row. length row = length s) a"
  shows "elementwise Pair a [s] = Inr (map (\<lambda>r. zip r s) a)"
proof -
  have "map (\<lambda>r. broadcast2 Pair r s) a = map (\<lambda>r. Inr (zip r s)) a"
    using assms by (induction a) (simp_all add: broadcast2_same)
  then show ?thesis
    by (simp only: elementwise_row collect_Inr)
qed

lemma map_fst_zip_rows:
  assumes "list_all (\<lambda>row. length row = length s) a"
  shows "map (map fst) (map (\<lambda>r. zip r s) a) = a"
  using assms by (induction a) simp_all

lemma torch_normal_mean:
  assumes "list_all (\<lambda>row. length row = length sigma) z_mu"
  shows "\<exists>g. torch_normal z_mu (map (\<lambda>s. s * of_bool False) sigma) gen = Inr (z_mu, g)"
proof -
  define zeros :: vector where "zeros = map (\<lambda>s. 0) sigma"
  have l: "list_all (\<lambda>row. length row = length zeros) z_mu"
    using assms by (simp add: zeros_def)
  have "torch_normal z_mu zeros gen
          = Inr (map (map fst) (map (\<lambda>r. zip r zeros) z_mu),
                 gen\<lparr>consumed := consumed gen + numel (map (\<lambda>r. zip r zeros) z_mu)\<rparr>)"
    unfolding zeros_def torch_normal_zeros
    unfolding zeros_def [symmetric] elementwise_Pair_rows [OF l] bind_result_simps ..
  then have "torch_normal z_mu zeros gen
          = Inr (z_mu, gen\<lparr>consumed := consumed gen + numel (map (\<lambda>r. zip r zeros) z_mu)\<rparr>)"
    by (simp only: map_fst_zip_rows [OF l])
  then show ?thesis by (simp add: zeros_def)
qed

lemma compute_estimate_vail_Inr:
  assumes "use_vail (net_settings self)"
    and "compute_estimate self b noise gen = Inr (est, zmu, gen')"
  obtains layer sigma z_mu h where
    "z_mu_layer (params self) = Some layer" "z_sigma (params self) = Some sigma"
    "zmu = Some z_mu"
    "torch_normal z_mu (map (\<lambda>s. s * of_bool noise) sigma) gen = Inr (h, gen')"
    "est = estimator self h"
  using assms unfolding compute_estimate_def Let_def
  by (auto simp: bind_result_eq_Inr)

lemma cat_dim1_three_rows: "cat_dim1 [a, b, c] = Inr t \<Longrightarrow> length t = length a"
  by (auto simp: bind_result_eq_Inr split: if_splits)

lemma length_fill [simp]: "length (fill f k t) = length t"
  by (induction t arbitrary: k) simp_all

lemma collect_length: "collect xs = Inr ys \<Longrightarrow> length ys = length xs"
  by (induction xs arbitrary: ys) (auto simp: bind_result_eq_Inr)

lemma torch_normal_rows:
  assumes "torch_normal mean std gen = Inr (h, g)"
  shows "length h = length mean"
proof -
  from assms obtain ms where
    ms: "elementwise Pair mean [std] = Inr ms"
    and h: "h = map2 (map2 (\<lambda>(m, s) z. m + s * z)) ms
                  (fill (normal_draws gen) (consumed gen) ms)"
    unfolding torch_normal_def
    by (auto simp: bind_result_eq_Inr Let_def split: if_splits)
  have "collect (map (\<lambda>r. broadcast2 Pair r std) mean) = Inr ms"
    using ms by (simp only: elementwise_row)
  then have "length ms = length mean"
    using collect_length by fastforce
  then show ?thesis unfolding h by simp
qed

lemma compute_estimate_rows:
  assumes ce: "compute_estimate self b noise gen = Inr (est, zmu, gen')"
    and enc: "\<And>t. length (encoder (params self) t) = length t"
    and lay: "\<And>layer t. z_mu_layer (params self) = Some layer \<Longrightarrow> length (layer t) = length t"
  shows "length est = length (get_state_encoding self b)"
proof -
  define inp where "inp =
    (if use_actions (net_settings self)
     then cat_dim1 [get_state_encoding self b, get_action_input self b, done_column b]
     else Inr (get_state_encoding self b))"
  from ce obtain x where x: "inp = Inr x"
    unfolding compute_estimate_def Let_def inp_def [symmetric]
    by (auto simp: bind_result_eq_Inr)
  have lx: "length x = length (get_state_encoding self b)"
    using x unfolding inp_def by (auto split: if_splits dest: cat_dim1_three_rows)
  from ce obtain hid where est: "est = estimator self hid"
    and hid: "length hid = length (encoder (params self) x)"
    unfolding compute_estimate_def Let_def inp_def [symmetric] x bind_result_simps
    by (auto simp: bind_result_eq_Inr lay split: if_splits dest!: torch_normal_rows)
  show ?thesis
    unfolding est using hid lx enc by simp
qed

lemma evaluate_no_noise:
  "map_sum id fst (evaluate provider b gen1) = map_sum id fst (evaluate provider b gen2)"
  unfolding evaluate_def Let_def
proof (rule map_sum_bind_result [OF compute_estimate_no_noise])
  fix x y :: "tensor \<times> tensor option \<times> generator"
  assume "(case x of (est, z_mu, g) \<Rightarrow> (est, z_mu)) = (case y of (est, z_mu, g) \<Rightarrow> (est, z_mu))"
  then obtain est z g1 g2 where x: "x = (est, z, g1)" and y: "y = (est, z, g2)"
    by (cases x; cases y) simp
  show "map_sum id fst
          (case x of (estimates, _, gen') \<Rightarrow>
             bind_result
               (torch_log32_vec
                  (map (\<lambda>s. float32 (1 - s))
                     (map (\<lambda>e. float32 (e * float32 (1 - EPSILON)))
                        (squeeze_dim1 estimates))))
               (\<lambda>logs. Inr (map uminus logs, provider, gen')))
        = map_sum id fst
          (case y of (estimates, _, gen') \<Rightarrow>
             bind_result
               (torch_log32_vec
                  (map (\<lambda>s. float32 (1 - s))
                     (map (\<lambda>e. float32 (e * float32 (1 - EPSILON)))
                        (squeeze_dim1 estimates))))
               (\<lambda>logs. Inr (map uminus logs, provider, gen')))"
    unfolding x y
    by (cases "torch_log32_vec
                  (map (\<lambda>s. float32 (1 - s))
                     (map (\<lambda>e. float32 (e * float32 (1 - EPSILON))) (squeeze_dim1 est)))")
       simp_all
qed

lemma interpolated_actions_ignore_expert:
  "interpolated_actions self policy_batch expert_batch gen
     = interpolated_actions self policy_batch other_batch gen"
  by (simp add: interpolated_actions_def)

lemma estimator_column:
  "estimator self h = map (\<lambda>x. [x]) (squeeze_dim1 (estimator self h))"
  by (simp only: squeeze_estimator) (simp add: estimator_def comp_def)

lemma elementwise_column:
  assumes "length xs = length ys"
  shows "elementwise h (map (\<lambda>x. [f x]) xs) (map (\<lambda>y. [g y]) ys)
           = Inr (map (\<lambda>(x, y). [h (f x) (g y)]) (zip xs ys))"
proof -
  have "list_all2 (\<lambda>r s. length r = length s)
          (map (\<lambda>x. [f x]) xs) (map (\<lambda>y. [g y]) ys)"
    using assms by (induction xs ys rule: list_induct2) simp_all
  then have "elementwise h (map (\<lambda>x. [f x]) xs) (map (\<lambda>y. [g y]) ys)
          = Inr (map2 (map2 h) (map (\<lambda>x. [f x]) xs) (map (\<lambda>y. [g y]) ys))"
    by (rule elementwise_same)
  also have "map2 (map2 h) (map (\<lambda>x. [f x]) xs) (map (\<lambda>y. [g y]) ys)
          = map (\<lambda>(x, y). [h (f x) (g y)]) (zip xs ys)"
    using assms by (induction xs ys rule: list_induct2) simp_all
  finally show ?thesis .
qed

lemma torch_log_Inr: "torch_log t = Inr r \<Longrightarrow> r = map (map ln) t"
  by (simp add: torch_log_def split: if_splits)

lemma torch_mean_column:
  "torch_mean (map (\<lambda>(x, y). [k x y]) (zip xs ys)) = vec_mean (map2 k xs ys)"
proof -
  have "concat (map (\<lambda>(x, y). [k x y]) ps) = map (\<lambda>(x, y). k x y) ps" for ps
    by (induction ps) auto
  then show ?thesis by (simp add: torch_mean_def)
qed

lemma adversarial_loss_value:
  assumes "adversarial_loss (estimator self he) (estimator self hp) = Inr adv"
    and "length (estimator self hp) = length (estimator self he)"
  shows "adv = - (sum_list (map2 (\<lambda>e p. ln (e * (1 - EPSILON)) + ln (1 - p * (1 - EPSILON)))
                    (squeeze_dim1 (estimator self he)) (squeeze_dim1 (estimator self hp)))
                  / real (length (estimator self hp)))"
proof -
  let ?E = "squeeze_dim1 (estimator self he)" and ?P = "squeeze_dim1 (estimator self hp)"
  let ?terms = "map2 (\<lambda>e p. ln (e * (1 - EPSILON)) + ln (1 - p * (1 - EPSILON))) ?E ?P"
  have len: "length ?E = length ?P"
    using assms(2) by (simp add: squeeze_estimator)
  from assms(1) obtain el pl total m where
    el: "torch_log (map (map (\<lambda>e. e * (1 - EPSILON))) (estimator self he)) = Inr el"
    and pl: "torch_log (map (map (\<lambda>e. 1 - e * (1 - EPSILON))) (estimator self hp)) = Inr pl"
    and total: "elementwise (+) el pl = Inr total"
    and m: "torch_mean total = Inr m" and adv: "adv = - m"
    unfolding adversarial_loss_def by (auto simp: bind_result_eq_Inr)
  have "el = map (map ln) (map (map (\<lambda>e. e * (1 - EPSILON))) (map (\<lambda>x. [x]) ?E))"
    using torch_log_Inr [OF el] by (simp only: estimator_column [symmetric])
  then have el': "el = map (\<lambda>x. [ln (x * (1 - EPSILON))]) ?E"
    by (simp add: comp_def)
  have "pl = map (map ln) (map (map (\<lambda>e. 1 - e * (1 - EPSILON))) (map (\<lambda>x. [x]) ?P))"
    using torch_log_Inr [OF pl] by (simp only: estimator_column [symmetric])
  then have pl': "pl = map (\<lambda>x. [ln (1 - x * (1 - EPSILON))]) ?P"
    by (simp add: comp_def)
  have "elementwise (+) el pl
          = Inr (map (\<lambda>(x, y). [ln (x * (1 - EPSILON)) + ln (1 - y * (1 - EPSILON))])
                   (zip ?E ?P))"
    unfolding el' pl' using len by (rule elementwise_column)
  with total have t: "total = map (\<lambda>(x, y). [ln (x * (1 - EPSILON)) + ln (1 - y * (1 - EPSILON))])
                   (zip ?E ?P)"
    by simp
  have "torch_mean total = vec_mean ?terms"
    unfolding t by (rule torch_mean_column)
  with m have m': "vec_mean ?terms = Inr m" by simp
  have n: "length ?terms = length (estimator self hp)"
    using len by (simp add: squeeze_estimator)
  from m' have "m = sum_list ?terms / real (length ?terms)"
    by (simp add: vec_mean_def split: if_splits)
  then show ?thesis
    unfolding adv n by simp
qed

lemma exp_nat_bounds: "2 ^ n \<le> exp (real n) \<and> exp (real n) \<le> 3 ^ n"
proof
  have e: "exp (real n) = exp 1 ^ n"
    using exp_of_nat_mult [of n 1] by simp
  have "2 \<le> exp (1::real)"
    using exp_ge_add_one_self [of "1::real"] by simp
  then show "2 ^ n \<le> exp (real n)"
    unfolding e by (intro power_mono) simp_all
  show "exp (real n) \<le> 3 ^ n"
    unfolding e by (intro power_mono exp_le) simp_all
qed

lemma sigmoid_minus_bounds:
  "1 / (1 + 3 ^ n) \<le> sigmoid (- real n) \<and> sigmoid (- real n) \<le> 1 / 2 ^ n"
proof
  note b = exp_nat_bounds [of n]
  have pos: "0 < exp (real n)" by simp
  have "1 + exp (real n) \<le> 1 + 3 ^ n" using b by simp
  then show "1 / (1 + 3 ^ n) \<le> sigmoid (- real n)"
    unfolding sigmoid_def using pos by (simp add: frac_le add_pos_pos)
  have "2 ^ n \<le> 1 + exp (real n)" using b by simp
  then show "sigmoid (- real n) \<le> 1 / 2 ^ n"
    unfolding sigmoid_def by (simp add: frac_le)
qed

lemma estimate_minus_60:
  "0 < float32 (sigmoid (- 60)) \<and> float32 (sigmoid (- 60)) \<le> 1 / 2 ^ 60"
proof
  note b = sigmoid_minus_bounds [of 60]
  have x: "float32 (1 / 2 ^ 96) = 1 / 2 ^ 96"
    using float32_exact [of "2 ^ 23" "- 96"] by (simp add: powr_minus)
  have "(1::real) / 2 ^ 96 \<le> 1 / (1 + 3 ^ 60)" by simp
  with b have "1 / 2 ^ 96 \<le> sigmoid (- 60)" by simp
  then have "float32 (1 / 2 ^ 96) \<le> float32 (sigmoid (- 60))"
    by (rule float32_mono)
  then show "0 < float32 (sigmoid (- 60))"
    unfolding x by simp
  have y: "float32 (1 / 2 ^ 60) = 1 / 2 ^ 60"
    using float32_exact [of "2 ^ 23" "- 60"] by (simp add: powr_minus)
  have "float32 (sigmoid (- 60)) \<le> float32 (1 / 2 ^ 60)"
    by (rule float32_mono) (use b in simp)
  then show "float32 (sigmoid (- 60)) \<le> 1 / 2 ^ 60"
    unfolding y .
qed

lemma estimate_minus_30:
  "1 / 2 ^ 48 \<le> float32 (sigmoid (- 30)) \<and> float32 (sigmoid (- 30)) \<le> 1 / 2 ^ 30"
proof
  note b = sigmoid_minus_bounds [of 30]
  have x: "float32 (1 / 2 ^ 48) = 1 / 2 ^ 48"
    using float32_exact [of "2 ^ 23" "- 48"] by (simp add: powr_minus)
  have "(1::real) / 2 ^ 48 \<le> 1 / (1 + 3 ^ 30)" by simp
  with b have "1 / 2 ^ 48 \<le> sigmoid (- 30)" by simp
  then have "float32 (1 / 2 ^ 48) \<le> float32 (sigmoid (- 30))"
    by (rule float32_mono)
  then show "1 / 2 ^ 48 \<le> float32 (sigmoid (- 30))"
    unfolding x .
  have y: "float32 (1 / 2 ^ 30) = 1 / 2 ^ 30"
    using float32_exact [of "2 ^ 23" "- 30"] by (simp add: powr_minus)
  have "float32 (sigmoid (- 30)) \<le> float32 (1 / 2 ^ 30)"
    by (rule float32_mono) (use b in simp)
  then show "float32 (sigmoid (- 30)) \<le> 1 / 2 ^ 30"
    unfolding y .
qed

section \<open>The concrete inputs, evaluated\<close>

lemmas example_defs =
  example_settings_def example_parameters_def example_network_def policy_example_def
  expert_example_def example_generator_def other_generator_def example_collaborators_def
  example_provider_def logit_network_def logit_provider_def low_batch_def mixed_batch_def

lemmas tensor_defs =
  elementwise_def broadcast2_def compatible_def broadcast_size_def expand_def
  torch_normal_def torch_rand_def numel_def torch_log_def torch_log_vec_def
  vec_mean_def torch_mean_def sum_dim1_def squeeze_dim1_def interpolate_def

lemma compute_estimate_example_plain:
  "compute_estimate (example_network False False) policy_example noise gen
     = Inr ([[1 / 2]], None, gen)"
  by (simp add: compute_estimate_def get_state_encoding_def estimator_def example_defs)

lemma compute_estimate_example_vail:
  "compute_estimate (example_network False True) policy_example True example_generator
     = Inr ([[1 / 2]], Some [[0]], example_generator\<lparr>consumed := 1\<rparr>)"
  by (simp add: compute_estimate_def get_state_encoding_def estimator_def example_defs
        tensor_defs)

lemma compute_estimate_example_mean:
  "compute_estimate (example_network False True) policy_example False gen
     = Inr ([[1 / 2]], Some [[0]], gen\<lparr>consumed := consumed gen + 1\<rparr>)"
  by (simp add: compute_estimate_def get_state_encoding_def estimator_def example_defs
        tensor_defs)

lemma compute_estimate_example_actions:
  "compute_estimate (example_network True False) policy_example noise gen
     = Inr ([[1 / 2]], None, gen)"
  "compute_estimate (example_network True False) expert_example noise gen
     = Inr ([[1 / 2]], None, gen)"
  by (simp_all add: compute_estimate_def get_state_encoding_def get_action_input_def
        estimator_def example_defs)

lemma compute_estimate_logit:
  "compute_estimate logit_network low_batch noise gen
     = Inr ([[float32 (sigmoid (- 60))], [float32 (sigmoid (- 30))]], None, gen)"
  "compute_estimate logit_network mixed_batch noise gen
     = Inr ([[1 / 2], [float32 (sigmoid (- 60))]], None, gen)"
  by (simp_all add: compute_estimate_def get_state_encoding_def estimator_def example_defs)

lemma compute_loss_example_vail:
  "\<exists>loss. compute_loss (autograd_grad example_collaborators) (example_network False True)
         policy_example expert_example example_generator
       = Inr ((loss, 1 / 2, 1 / 2, Some 0), example_network False True,
              example_generator\<lparr>consumed := 4\<rparr>)"
  by (simp add: compute_loss_def compute_estimate_def get_state_encoding_def estimator_def
        example_defs tensor_defs adversarial_loss_def kl_divergence_def
        compute_gradient_magnitude_def interpolated_input_def penalty_estimate_def
        EPSILON_def alpha_def mutual_information_def)

lemma compute_loss_example_plain:
  "\<exists>loss. compute_loss (autograd_grad example_collaborators) (example_network True False)
         policy_example expert_example example_generator
       = Inr ((loss, 1 / 2, 1 / 2, None), example_network True False,
              example_generator\<lparr>consumed := 3\<rparr>)"
  by (simp add: compute_loss_def compute_estimate_def get_state_encoding_def estimator_def
        example_defs tensor_defs adversarial_loss_def kl_divergence_def
        compute_gradient_magnitude_def interpolated_input_def penalty_estimate_def
        interpolated_actions_def interpolated_dones_def get_action_input_def
        EPSILON_def alpha_def mutual_information_def)

lemma example_provider_simps [simp]:
  "discriminator_network (example_provider a v) = example_network a v"
  "demo_buffer (example_provider a v) = expert_example"
  "optimizer (example_provider a v) = ()"
  "ignore_done (example_provider a v) = True"
  by (simp_all add: example_provider_def)

lemma example_network_simps [simp]:
  "net_use_vail (example_network a v) = v"
  "use_vail (net_settings (example_network a v)) = v"
  "use_actions (net_settings (example_network a v)) = a"
  "beta (example_network a v) = (if v then Some 0 else None)"
  "params (example_network a v) = example_parameters v"
  "(example_network a v)\<lparr>params := example_parameters v\<rparr> = example_network a v"
  by (simp_all add: example_network_def example_settings_def)

lemma example_collaborators_simps [simp]:
  "sample_mini_batch example_collaborators buffer n k gen = (buffer, gen)"
  "optimizer_step example_collaborators opt network pb eb gen = (params network, opt)"
  "demo_to_buffer example_collaborators path 1 specs = Inr ((), expert_example)"
  by (simp_all add: example_collaborators_def)

lemma update_example_vail:
  "\<exists>loss. update example_collaborators (example_provider False True) policy_example
            example_generator
          = Inr ([''Losses/GAIL Discriminator Loss'' \<mapsto> loss,
                  ''Policy/GAIL Policy Estimate'' \<mapsto> 1 / 2,
                  ''Policy/GAIL Expert Estimate'' \<mapsto> 1 / 2,
                  ''Policy/GAIL Beta'' \<mapsto> 0,
                  ''Losses/GAIL KL Loss'' \<mapsto> 0],
                 example_provider False True, example_generator\<lparr>consumed := 4\<rparr>)"
proof -
  obtain l where "compute_loss (autograd_grad example_collaborators)
      (example_network False True) policy_example expert_example example_generator
       = Inr ((l, 1 / 2, 1 / 2, Some 0), example_network False True,
              example_generator\<lparr>consumed := 4\<rparr>)"
    using compute_loss_example_vail by blast
  then show ?thesis
    by (intro exI [of _ l]) (simp add: update_def example_provider_def)
qed

lemma update_example_plain:
  "\<exists>loss. update example_collaborators (example_provider True False) policy_example
            example_generator
          = Inr ([''Losses/GAIL Discriminator Loss'' \<mapsto> loss,
                  ''Policy/GAIL Policy Estimate'' \<mapsto> 1 / 2,
                  ''Policy/GAIL Expert Estimate'' \<mapsto> 1 / 2],
                 example_provider True False, example_generator\<lparr>consumed := 3\<rparr>)"
proof -
  obtain l where "compute_loss (autograd_grad example_collaborators)
      (example_network True False) policy_example expert_example example_generator
       = Inr ((l, 1 / 2, 1 / 2, None), example_network True False,
              example_generator\<lparr>consumed := 3\<rparr>)"
    using compute_loss_example_plain by blast
  then show ?thesis
    by (intro exI [of _ l]) (simp add: update_def example_provider_def)
qed

lemma evaluate_example_vail:
  "\<exists>rewards provider'. evaluate (example_provider False True) policy_example example_generator
     = Inr (rewards, provider', example_generator\<lparr>consumed := 1\<rparr>)"
proof -
  have "compute_estimate (discriminator_network (example_provider False True))
          policy_example False example_generator
        = Inr ([[1 / 2]], Some [[0]], example_generator\<lparr>consumed := 1\<rparr>)"
    using compute_estimate_example_mean [of example_generator]
    by (simp add: example_generator_def)
  from evaluate_value [OF this] show ?thesis by blast
qed

lemma init_example:
  "\<exists>provider. init example_collaborators example_specs (example_settings False True)
                 example_generator = Inr (provider, example_generator)"
  by (simp add: init_def discriminator_init_def Let_def example_collaborators_def)

section \<open>The claims\<close>

text \<open>
  C1. The claim: with \<open>use_actions\<close>, the action part of the interpolated encoder input
  is \<open>\<epsilon> * policy actions + (1 - \<epsilon>) * expert actions\<close>. The code at a concrete input:
  the policy action is 1, the expert action is 0 and every coefficient drawn is 1/2. The
  action part is 1, where the formula of the claim gives 1/2; the observation part (0)
  and the done part (1/2, from the policy flag 0 and the expert flag 1) do mix the two
  batches. By \<open>interpolated_actions_ignore_expert\<close> the action part never depends on the
  expert batch.
\<close>

theorem interpolated_actions_example:
  "interpolated_actions (example_network True False) policy_example expert_example
     example_generator = (Inr [[1]], example_generator\<lparr>consumed := 1\<rparr>)
   \<and> interpolated_dones policy_example expert_example example_generator
       = (Inr [[1 / 2]], example_generator\<lparr>consumed := 1\<rparr>)
   \<and> interpolated_input (example_network True False) policy_example expert_example
       example_generator = Inr ([[0, 1, 1 / 2]], example_generator\<lparr>consumed := 3\<rparr>)
   \<and> get_action_input (example_network True False) policy_example = [[1]]
   \<and> get_action_input (example_network True False) expert_example = [[0]]
   \<and> torch_rand [[1]] example_generator = ([[1 / 2]], example_generator\<lparr>consumed := 1\<rparr>)
   \<and> interpolate [[1 / 2]] [[1]] [[0]] = Inr [[1 / 2]]"
  by (simp add: interpolated_actions_def interpolated_dones_def interpolated_input_def
        get_action_input_def get_state_encoding_def example_defs tensor_defs)

text \<open>
  C2. With \<open>use_vail\<close>, whenever \<open>compute_loss\<close> returns, the network it leaves differs
  from the one it received in \<open>beta\<close> only, and the new \<open>beta\<close> is
  \<open>max 0 (old_beta + 0.0005 * (kl_loss - 0.5))\<close>, which is not negative whatever the old
  \<open>beta\<close> and the KL loss are. Whenever \<open>update\<close> returns, \<open>beta\<close> of the provider it
  leaves is that value for the KL loss of its call of \<open>compute_loss\<close>: the optimizer step
  replaces the trainable parameters, and \<open>beta\<close> is not one of them. The numbers are reals.
\<close>

theorem beta_update_nonnegative:
  "(use_vail (net_settings self)
      \<and> compute_loss grad self policy_batch expert_batch gen
          = Inr ((loss, policy_mean, expert_mean, kl_loss), self', gen')
    \<longrightarrow> (\<exists>old_beta kl.
           beta self = Some old_beta \<and> kl_loss = Some kl
           \<and> self' = self\<lparr>beta := Some (max 0 (old_beta + (5 / 10000) * (kl - 1 / 2)))\<rparr>
           \<and> 0 \<le> max 0 (old_beta + (5 / 10000) * (kl - 1 / 2))))
   \<and> (use_vail (net_settings (discriminator_network provider))
      \<and> update ext provider mini_batch rng = Inr (stats, provider', rng')
    \<longrightarrow> (\<exists>batch rng1 total pm em old_beta kl network.
           sample_mini_batch ext (demo_buffer provider) (num_experiences mini_batch) 1 rng
             = (batch, rng1)
           \<and> compute_loss (autograd_grad ext) (discriminator_network provider) mini_batch
               batch rng1 = Inr ((total, pm, em, Some kl), network, rng')
           \<and> beta (discriminator_network provider) = Some old_beta
           \<and> beta (discriminator_network provider')
               = Some (max 0 (old_beta + (5 / 10000) * (kl - 1 / 2)))
           \<and> 0 \<le> max 0 (old_beta + (5 / 10000) * (kl - 1 / 2))))"
proof (intro conjI impI)
  assume a: "use_vail (net_settings self)
      \<and> compute_loss grad self policy_batch expert_batch gen
          = Inr ((loss, policy_mean, expert_mean, kl_loss), self', gen')"
  then show "\<exists>old_beta kl.
           beta self = Some old_beta \<and> kl_loss = Some kl
           \<and> self' = self\<lparr>beta := Some (max 0 (old_beta + (5 / 10000) * (kl - 1 / 2)))\<rparr>
           \<and> 0 \<le> max 0 (old_beta + (5 / 10000) * (kl - 1 / 2))"
    by (elim conjE compute_loss_Inr)
       (auto simp: alpha_def mutual_information_def max.commute)
next
  assume a: "use_vail (net_settings (discriminator_network provider))
      \<and> update ext provider mini_batch rng = Inr (stats, provider', rng')"
  then obtain eb g1 loss pm em kl net params' opt' where
    s: "sample_mini_batch ext (demo_buffer provider) (num_experiences mini_batch) 1 rng
          = (eb, g1)"
    and c: "compute_loss (autograd_grad ext) (discriminator_network provider) mini_batch eb g1
       = Inr ((loss, pm, em, kl), net, rng')"
    and p: "provider' = provider\<lparr>discriminator_network := net\<lparr>params := params'\<rparr>,
                                  optimizer := opt'\<rparr>"
    by (elim conjE update_Inr)
  from a c obtain b k where
    b: "beta (discriminator_network provider) = Some b" and k: "kl = Some k"
    and n: "net = (discriminator_network provider)
             \<lparr>beta := Some (max 0 (b + (5 / 10000) * (k - 1 / 2)))\<rparr>"
    by (elim conjE compute_loss_Inr)
       (auto simp: alpha_def mutual_information_def max.commute)
  have 1: "compute_loss (autograd_grad ext) (discriminator_network provider) mini_batch eb g1
             = Inr ((loss, pm, em, Some k), net, rng')"
    using c k by simp
  have 2: "beta (discriminator_network provider')
             = Some (max 0 (b + (5 / 10000) * (k - 1 / 2)))"
    unfolding p n by simp
  have 3: "0 \<le> max 0 (b + (5 / 10000) * (k - 1 / 2))"
    by simp
  show "\<exists>batch rng1 total pm em old_beta kl network.
           sample_mini_batch ext (demo_buffer provider) (num_experiences mini_batch) 1 rng
             = (batch, rng1)
           \<and> compute_loss (autograd_grad ext) (discriminator_network provider) mini_batch
               batch rng1 = Inr ((total, pm, em, Some kl), network, rng')
           \<and> beta (discriminator_network provider) = Some old_beta
           \<and> beta (discriminator_network provider')
               = Some (max 0 (old_beta + (5 / 10000) * (kl - 1 / 2)))
           \<and> 0 \<le> max 0 (old_beta + (5 / 10000) * (kl - 1 / 2))"
    using s 1 b 2 3 by blast
qed

theorem beta_update_nonnegative_witness:
  "(\<exists>loss. compute_loss (autograd_grad example_collaborators) (example_network False True)
        policy_example expert_example example_generator
      = Inr ((loss, 1 / 2, 1 / 2, Some 0),
             (example_network False True)
               \<lparr>beta := Some (max 0 (0 + (5 / 10000) * (0 - 1 / 2)))\<rparr>,
             example_generator\<lparr>consumed := 4\<rparr>))
   \<and> (\<exists>stats provider' gen'.
         update example_collaborators (example_provider False True) policy_example
           example_generator = Inr (stats, provider', gen')
         \<and> (\<exists>b. beta (discriminator_network provider') = Some b \<and> 0 \<le> b))"
proof -
  obtain l where 1: "compute_loss (autograd_grad example_collaborators)
      (example_network False True) policy_example expert_example example_generator
       = Inr ((l, 1 / 2, 1 / 2, Some 0), example_network False True,
              example_generator\<lparr>consumed := 4\<rparr>)"
    using compute_loss_example_vail by blast
  obtain stats provider' gen' where 2:
    "update example_collaborators (example_provider False True) policy_example
       example_generator = Inr (stats, provider', gen')"
    using update_example_vail by blast
  note t = beta_update_nonnegative [where self = "example_network False True"
      and grad = "autograd_grad example_collaborators" and policy_batch = policy_example
      and expert_batch = expert_example and gen = example_generator and loss = l
      and policy_mean = "1 / 2" and expert_mean = "1 / 2" and kl_loss = "Some 0"
      and self' = "example_network False True"
      and gen' = "example_generator\<lparr>consumed := 4\<rparr>"
      and provider = "example_provider False True"
      and ext = example_collaborators and mini_batch = policy_example
      and rng = example_generator and stats = stats and provider' = provider'
      and rng' = gen']
  have a: "example_network False True = (example_network False True)
               \<lparr>beta := Some (max 0 (0 + (5 / 10000) * (0 - 1 / 2)))\<rparr>"
    using t 1 by simp
  have b: "\<exists>b. beta (discriminator_network provider') = Some b \<and> 0 \<le> b"
    using t 2 by (simp only: example_provider_simps example_network_simps) blast
  show ?thesis using 1 2 a b by metis
qed

text \<open>
  C3 as it was stated, strictly increasing rewards, fails on the code. A batch of two
  experiences whose estimates are the sigmoids of -60 and of -30, in float32: the
  estimates lie strictly between 0 and 1 and the first is strictly less than the second,
  and \<open>evaluate\<close> gives both the reward 0. For an estimate this small,
  \<open>1 - e * (1 - 1e-7)\<close> rounds to 1.
\<close>

theorem evaluate_reward_not_strict:
  "compute_estimate (discriminator_network logit_provider) low_batch False example_generator
     = Inr ([[float32 (sigmoid (- 60))], [float32 (sigmoid (- 30))]], None, example_generator)
   \<and> 0 < float32 (sigmoid (- 60))
   \<and> float32 (sigmoid (- 60)) < float32 (sigmoid (- 30))
   \<and> float32 (sigmoid (- 30)) < 1
   \<and> evaluate logit_provider low_batch example_generator
       = Inr ([0, 0], logit_provider, example_generator)"
proof -
  have c: "compute_estimate (discriminator_network logit_provider) low_batch False
             example_generator
           = Inr ([[float32 (sigmoid (- 60))], [float32 (sigmoid (- 30))]], None,
                  example_generator)"
    using compute_estimate_logit(1) by (simp add: logit_provider_def)
  note a = estimate_minus_60 and b = estimate_minus_30
  have 1: "0 < float32 (sigmoid (- 60))" using a by simp
  have "float32 (sigmoid (- 60)) \<le> 1 / 2 ^ 60" using a by simp
  also have "(1::real) / 2 ^ 60 < 1 / 2 ^ 48" by simp
  also have "1 / 2 ^ 48 \<le> float32 (sigmoid (- 30))" using b by simp
  finally have 2: "float32 (sigmoid (- 60)) < float32 (sigmoid (- 30))" .
  have u: "float32 (sigmoid (- 30)) \<le> 1 / 2 ^ 30" using b by simp
  then have 3: "float32 (sigmoid (- 30)) < 1" by simp
  have r60: "- float32 (ln (float32 (1 - float32 (float32 (sigmoid (- 60)) * float32 (1 - EPSILON))))) = 0"
    using reward_small_zero [of "float32 (sigmoid (- 60))"] a by simp
  have r30: "- float32 (ln (float32 (1 - float32 (float32 (sigmoid (- 30)) * float32 (1 - EPSILON))))) = 0"
    using reward_small_zero [of "float32 (sigmoid (- 30))"] 2 1 u by simp
  have "evaluate logit_provider low_batch example_generator
       = Inr ([0, 0], logit_provider, example_generator)"
    using evaluate_value [OF c] r60 r30 by (simp add: squeeze_dim1_def)
  with c 1 2 3 show ?thesis by simp
qed

text \<open>
  C3, as amended. Whenever the discriminator returns an estimate for the batch,
  \<open>evaluate\<close> returns one reward per row of the estimate, the reward of the estimate \<open>e\<close>
  being \<open>- log (1 - e * (1 - 1e-7))\<close> computed in float32, and every estimate lies
  between 0 and 1, the ends included. When the modules keep the number of rows and the
  state encoding has one row per experience, that is one reward per experience of the
  batch. For every \<open>e\<close> between 0 and 1 the argument of the logarithm is positive (the
  reward is finite) and the reward is not negative; and the reward does not decrease
  when \<open>e\<close> grows: \<open>e1 \<le> e2\<close> gives \<open>reward e1 \<le> reward e2\<close>.
\<close>

theorem evaluate_reward:
  "(compute_estimate (discriminator_network self) b False gen = Inr (est, zmu, gen') \<longrightarrow>
      evaluate self b gen =
        Inr (map (\<lambda>e. - float32 (ln (float32 (1 - float32 (e * float32 (1 - EPSILON)))))) (squeeze_dim1 est), self, gen')
      \<and> length (squeeze_dim1 est) = length est
      \<and> list_all (\<lambda>e. 0 \<le> e \<and> e \<le> 1) (squeeze_dim1 est)
      \<and> ((\<forall>t. length (encoder (params (discriminator_network self)) t) = length t)
           \<and> (\<forall>layer t. z_mu_layer (params (discriminator_network self)) = Some layer
                  \<longrightarrow> length (layer t) = length t)
           \<and> length (get_state_encoding (discriminator_network self) b) = num_experiences b
         \<longrightarrow> length (squeeze_dim1 est) = num_experiences b))
   \<and> (0 \<le> e \<and> e \<le> 1 \<longrightarrow>
        0 < float32 (1 - float32 (e * float32 (1 - EPSILON)))
        \<and> 0 \<le> - float32 (ln (float32 (1 - float32 (e * float32 (1 - EPSILON))))))
   \<and> (0 \<le> e1 \<and> e1 \<le> e2 \<and> e2 \<le> 1 \<longrightarrow>
        - float32 (ln (float32 (1 - float32 (e1 * float32 (1 - EPSILON)))))
        \<le> - float32 (ln (float32 (1 - float32 (e2 * float32 (1 - EPSILON))))))"
proof (intro conjI impI)
  assume a: "compute_estimate (discriminator_network self) b False gen = Inr (est, zmu, gen')"
  from evaluate_value [OF a]
  show "evaluate self b gen =
        Inr (map (\<lambda>e. - float32 (ln (float32 (1 - float32 (e * float32 (1 - EPSILON)))))) (squeeze_dim1 est), self, gen')"
    and len: "length (squeeze_dim1 est) = length est"
    and "list_all (\<lambda>e. 0 \<le> e \<and> e \<le> 1) (squeeze_dim1 est)"
    by simp_all
  assume r: "(\<forall>t. length (encoder (params (discriminator_network self)) t) = length t)
           \<and> (\<forall>layer t. z_mu_layer (params (discriminator_network self)) = Some layer
                  \<longrightarrow> length (layer t) = length t)
           \<and> length (get_state_encoding (discriminator_network self) b) = num_experiences b"
  have "length est = length (get_state_encoding (discriminator_network self) b)"
    using a by (rule compute_estimate_rows) (use r in simp_all)
  with r len show "length (squeeze_dim1 est) = num_experiences b" by simp
next
  assume a: "0 \<le> e \<and> e \<le> 1"
  then have "1 / 16777216 \<le> float32 (1 - float32 (e * float32 (1 - EPSILON)))"
    using log_argument_bounds [of e] by simp
  then show "0 < float32 (1 - float32 (e * float32 (1 - EPSILON)))" by simp
  show "0 \<le> - float32 (ln (float32 (1 - float32 (e * float32 (1 - EPSILON)))))"
    using a reward_nonneg [of e] by simp
next
  assume "0 \<le> e1 \<and> e1 \<le> e2 \<and> e2 \<le> 1"
  then show "- float32 (ln (float32 (1 - float32 (e1 * float32 (1 - EPSILON)))))
        \<le> - float32 (ln (float32 (1 - float32 (e2 * float32 (1 - EPSILON)))))"
    using reward_mono [of e1 e2] by simp
qed

theorem evaluate_reward_witness:
  "evaluate logit_provider mixed_batch example_generator
     = Inr (map (\<lambda>e. - float32 (ln (float32 (1 - float32 (e * float32 (1 - EPSILON)))))) [1 / 2, float32 (sigmoid (- 60))],
            logit_provider, example_generator)
   \<and> length [1 / 2, float32 (sigmoid (- 60))] = num_experiences mixed_batch
   \<and> (0 < float32 (1 - float32 ((1 / 2) * float32 (1 - EPSILON)))
      \<and> 0 \<le> - float32 (ln (float32 (1 - float32 ((1 / 2) * float32 (1 - EPSILON))))))
   \<and> - float32 (ln (float32 (1 - float32 ((1 / 4) * float32 (1 - EPSILON)))))
      \<le> - float32 (ln (float32 (1 - float32 ((1 / 2) * float32 (1 - EPSILON)))))"
proof -
  have c: "compute_estimate (discriminator_network logit_provider) mixed_batch False
             example_generator
           = Inr ([[1 / 2], [float32 (sigmoid (- 60))]], None, example_generator)"
    using compute_estimate_logit(2) by (simp add: logit_provider_def)
  have e: "\<forall>t. length (encoder (params (discriminator_network logit_provider)) t) = length t"
    by (simp add: example_defs)
  have l: "\<forall>layer t. z_mu_layer (params (discriminator_network logit_provider)) = Some layer
                  \<longrightarrow> length (layer t) = length t"
    by (simp add: example_defs)
  have n: "length (get_state_encoding (discriminator_network logit_provider) mixed_batch)
             = num_experiences mixed_batch"
    by (simp add: get_state_encoding_def num_experiences_def example_defs)
  from evaluate_reward [of logit_provider mixed_batch example_generator
      "[[1 / 2], [float32 (sigmoid (- 60))]]" None example_generator "1 / 2" "1 / 4" "1 / 2"]
    c e l n
  show ?thesis by (simp add: squeeze_dim1_def)
qed

text \<open>
  C4. Whenever \<open>compute_loss\<close> returns, both estimates were computed with the noise
  switched on, the policy batch first, and the gradient penalty was computed after them.
  For batches whose estimates have the same number of rows, the loss without its VAIL
  term \<open>beta * (kl_loss - 0.5)\<close> and without 10 times the gradient penalty is the negative
  mean over the experiences of
  \<open>ln (expert_estimate * (1 - 1e-7)) + ln (1 - policy_estimate * (1 - 1e-7))\<close>.
\<close>

theorem adversarial_part:
  "compute_loss grad self policy_batch expert_batch gen
     = Inr ((loss, policy_mean, expert_mean, kl_loss), self', gen')
   \<longrightarrow> (\<exists>policy_estimate policy_mu gen1 expert_estimate expert_mu gen2 gradient_mag.
          compute_estimate self policy_batch True gen = Inr (policy_estimate, policy_mu, gen1)
        \<and> compute_estimate self expert_batch True gen1
            = Inr (expert_estimate, expert_mu, gen2)
        \<and> compute_gradient_magnitude grad self' policy_batch expert_batch gen2
            = Inr (gradient_mag, gen')
        \<and> (length policy_estimate = length expert_estimate \<longrightarrow>
             loss - (case (kl_loss, beta self) of
                       (Some kl, Some b) \<Rightarrow> b * (kl - 1 / 2) | _ \<Rightarrow> 0)
                  - 10 * gradient_mag
             = - (sum_list (map2 (\<lambda>e p. ln (e * (1 - 1 / 10000000))
                                        + ln (1 - p * (1 - 1 / 10000000)))
                     (squeeze_dim1 expert_estimate) (squeeze_dim1 policy_estimate))
                  / real (length policy_estimate))))"
proof
  assume a: "compute_loss grad self policy_batch expert_batch gen
     = Inr ((loss, policy_mean, expert_mean, kl_loss), self', gen')"
  then obtain pe pmu g1 ee emu g2 adv vl gm where
    p: "compute_estimate self policy_batch True gen = Inr (pe, pmu, g1)"
    and e: "compute_estimate self expert_batch True g1 = Inr (ee, emu, g2)"
    and adv: "adversarial_loss ee pe = Inr adv"
    and v: "if use_vail (net_settings self)
     then \<exists>sigma k b. z_sigma (params self) = Some sigma
            \<and> kl_divergence sigma emu pmu = Inr k \<and> beta self = Some b \<and> kl_loss = Some k
            \<and> vl = b * (k - mutual_information)
            \<and> self' = self\<lparr>beta := Some (max (b + alpha * (k - mutual_information)) 0)\<rparr>
     else kl_loss = None \<and> vl = 0 \<and> self' = self"
    and g: "compute_gradient_magnitude grad self' policy_batch expert_batch g2 = Inr (gm, gen')"
    and l: "loss = adv + vl + gradient_penalty_weight * gm"
    by (rule compute_loss_Inr)
  have vl: "(case (kl_loss, beta self) of (Some kl, Some b) \<Rightarrow> b * (kl - 1 / 2) | _ \<Rightarrow> 0) = vl"
    using v by (auto simp: mutual_information_def split: if_splits)
  have rest: "loss - vl - 10 * gm = adv"
    using l by (simp add: gradient_penalty_weight_def)
  have "adv = - (sum_list (map2 (\<lambda>e p. ln (e * (1 - 1 / 10000000))
                                        + ln (1 - p * (1 - 1 / 10000000)))
                     (squeeze_dim1 ee) (squeeze_dim1 pe))
                  / real (length pe))"
    if len: "length pe = length ee"
  proof -
    obtain hp where hp: "pe = estimator self hp"
      using compute_estimate_estimator [OF p] by blast
    obtain he where he: "ee = estimator self he"
      using compute_estimate_estimator [OF e] by blast
    show ?thesis
      using adversarial_loss_value [of self he hp adv] adv len
      unfolding hp he EPSILON_def by simp
  qed
  then have final: "length pe = length ee \<longrightarrow>
             loss - vl - 10 * gm
             = - (sum_list (map2 (\<lambda>e p. ln (e * (1 - 1 / 10000000))
                                        + ln (1 - p * (1 - 1 / 10000000)))
                     (squeeze_dim1 ee) (squeeze_dim1 pe))
                  / real (length pe))"
    using rest by simp
  show "\<exists>policy_estimate policy_mu gen1 expert_estimate expert_mu gen2 gradient_mag.
          compute_estimate self policy_batch True gen = Inr (policy_estimate, policy_mu, gen1)
        \<and> compute_estimate self expert_batch True gen1
            = Inr (expert_estimate, expert_mu, gen2)
        \<and> compute_gradient_magnitude grad self' policy_batch expert_batch gen2
            = Inr (gradient_mag, gen')
        \<and> (length policy_estimate = length expert_estimate \<longrightarrow>
             loss - (case (kl_loss, beta self) of
                       (Some kl, Some b) \<Rightarrow> b * (kl - 1 / 2) | _ \<Rightarrow> 0)
                  - 10 * gradient_mag
             = - (sum_list (map2 (\<lambda>e p. ln (e * (1 - 1 / 10000000))
                                        + ln (1 - p * (1 - 1 / 10000000)))
                     (squeeze_dim1 expert_estimate) (squeeze_dim1 policy_estimate))
                  / real (length policy_estimate)))"
    unfolding vl using p e g final by blast
qed

theorem adversarial_part_witness:
  "\<exists>loss gm.
     compute_loss (autograd_grad example_collaborators) (example_network True False)
       policy_example expert_example example_generator
       = Inr ((loss, 1 / 2, 1 / 2, None), example_network True False,
              example_generator\<lparr>consumed := 3\<rparr>)
     \<and> compute_gradient_magnitude (autograd_grad example_collaborators)
         (example_network True False) policy_example expert_example example_generator
         = Inr (gm, example_generator\<lparr>consumed := 3\<rparr>)
     \<and> loss - 10 * gm
         = - (ln ((1 / 2) * (1 - 1 / 10000000)) + ln (1 - (1 / 2) * (1 - 1 / 10000000)))"
proof -
  obtain l where l: "compute_loss (autograd_grad example_collaborators)
      (example_network True False) policy_example expert_example example_generator
       = Inr ((l, 1 / 2, 1 / 2, None), example_network True False,
              example_generator\<lparr>consumed := 3\<rparr>)"
    using compute_loss_example_plain by blast
  from adversarial_part [of "autograd_grad example_collaborators" "example_network True False"
      policy_example expert_example example_generator l "1 / 2" "1 / 2" None
      "example_network True False" "example_generator\<lparr>consumed := 3\<rparr>"] l
  obtain pe pmu g1 ee emu g2 gm where
    p: "compute_estimate (example_network True False) policy_example True example_generator
          = Inr (pe, pmu, g1)"
    and e: "compute_estimate (example_network True False) expert_example True g1
          = Inr (ee, emu, g2)"
    and g: "compute_gradient_magnitude (autograd_grad example_collaborators)
         (example_network True False) policy_example expert_example g2
         = Inr (gm, example_generator\<lparr>consumed := 3\<rparr>)"
    and v: "length pe = length ee \<longrightarrow>
             l - (case (None :: real option, beta (example_network True False)) of
                       (Some kl, Some b) \<Rightarrow> b * (kl - 1 / 2) | _ \<Rightarrow> 0)
                  - 10 * gm
             = - (sum_list (map2 (\<lambda>e p. ln (e * (1 - 1 / 10000000))
                                        + ln (1 - p * (1 - 1 / 10000000)))
                     (squeeze_dim1 ee) (squeeze_dim1 pe))
                  / real (length pe))"
    by blast
  from p have pe: "pe = [[1 / 2]]" and g1: "g1 = example_generator"
    by (simp_all add: compute_estimate_example_actions)
  from e have ee: "ee = [[1 / 2]]" and g2: "g2 = example_generator"
    by (simp_all add: compute_estimate_example_actions g1)
  from v have "l - 10 * gm
         = - (ln ((1 / 2) * (1 - 1 / 10000000)) + ln (1 - (1 / 2) * (1 - 1 / 10000000)))"
    by (simp add: pe ee squeeze_dim1_def)
  with l g [unfolded g2] show ?thesis by blast
qed

text \<open>
  C5. Whenever \<open>compute_loss\<close> returns, the fourth component of its result is present
  exactly when \<open>use_vail\<close> is set in the settings.
\<close>

theorem kl_loss_present:
  "compute_loss grad self policy_batch expert_batch gen
     = Inr ((loss, policy_mean, expert_mean, kl_loss), self', gen')
   \<longrightarrow> (kl_loss \<noteq> None) = use_vail (net_settings self)"
proof
  assume "compute_loss grad self policy_batch expert_batch gen
            = Inr ((loss, policy_mean, expert_mean, kl_loss), self', gen')"
  then show "(kl_loss \<noteq> None) = use_vail (net_settings self)"
    by (elim compute_loss_Inr) (auto split: if_splits)
qed

theorem kl_loss_present_witness:
  "(\<exists>loss pm em kl self' gen'.
      compute_loss (autograd_grad example_collaborators) (example_network False True)
        policy_example expert_example example_generator = Inr ((loss, pm, em, kl), self', gen')
      \<and> kl \<noteq> None \<and> use_vail (net_settings (example_network False True)))
   \<and> (\<exists>loss pm em kl self' gen'.
      compute_loss (autograd_grad example_collaborators) (example_network True False)
        policy_example expert_example example_generator = Inr ((loss, pm, em, kl), self', gen')
      \<and> kl = None \<and> \<not> use_vail (net_settings (example_network True False)))"
proof -
  obtain l1 where 1: "compute_loss (autograd_grad example_collaborators)
      (example_network False True) policy_example expert_example example_generator
       = Inr ((l1, 1 / 2, 1 / 2, Some 0), example_network False True,
              example_generator\<lparr>consumed := 4\<rparr>)"
    using compute_loss_example_vail by blast
  obtain l2 where 2: "compute_loss (autograd_grad example_collaborators)
      (example_network True False) policy_example expert_example example_generator
       = Inr ((l2, 1 / 2, 1 / 2, None), example_network True False,
              example_generator\<lparr>consumed := 3\<rparr>)"
    using compute_loss_example_plain by blast
  have "use_vail (net_settings (example_network False True))"
    using kl_loss_present [of "autograd_grad example_collaborators"
        "example_network False True" policy_example expert_example example_generator
        l1 "1 / 2" "1 / 2" "Some 0" "example_network False True"
        "example_generator\<lparr>consumed := 4\<rparr>"] 1 by simp
  moreover have "\<not> use_vail (net_settings (example_network True False))"
    using kl_loss_present [of "autograd_grad example_collaborators"
        "example_network True False" policy_example expert_example example_generator
        l2 "1 / 2" "1 / 2" None "example_network True False"
        "example_generator\<lparr>consumed := 3\<rparr>"] 2 by simp
  ultimately show ?thesis using 1 2 by blast
qed

text \<open>
  C6. Whenever \<open>update\<close> returns, the keys of the mapping it returns are the three keys
  of the discriminator loss, the policy estimate and the expert estimate, and when the
  network has \<open>use_vail\<close> the two keys of beta and of the KL loss beside them; no other
  key.
\<close>

theorem update_stats_keys:
  "update ext provider mini_batch gen = Inr (stats, provider', gen')
   \<longrightarrow> dom stats =
        (if net_use_vail (discriminator_network provider)
         then {''Losses/GAIL Discriminator Loss'', ''Policy/GAIL Policy Estimate'',
               ''Policy/GAIL Expert Estimate'', ''Policy/GAIL Beta'', ''Losses/GAIL KL Loss''}
         else {''Losses/GAIL Discriminator Loss'', ''Policy/GAIL Policy Estimate'',
               ''Policy/GAIL Expert Estimate''})"
proof
  assume "update ext provider mini_batch gen = Inr (stats, provider', gen')"
  then obtain eb g1 loss pm em kl net where
    c: "compute_loss (autograd_grad ext) (discriminator_network provider) mini_batch eb g1
          = Inr ((loss, pm, em, kl), net, gen')"
    and st: "if net_use_vail net
       then \<exists>b k. beta net = Some b \<and> kl = Some k
            \<and> stats = [''Losses/GAIL Discriminator Loss'' \<mapsto> loss,
                       ''Policy/GAIL Policy Estimate'' \<mapsto> pm,
                       ''Policy/GAIL Expert Estimate'' \<mapsto> em,
                       ''Policy/GAIL Beta'' \<mapsto> b,
                       ''Losses/GAIL KL Loss'' \<mapsto> k]
       else stats = [''Losses/GAIL Discriminator Loss'' \<mapsto> loss,
                     ''Policy/GAIL Policy Estimate'' \<mapsto> pm,
                     ''Policy/GAIL Expert Estimate'' \<mapsto> em]"
    by (elim update_Inr)
  have v: "net_use_vail net = net_use_vail (discriminator_network provider)"
    using compute_loss_frame(1) [OF c] .
  show "dom stats =
        (if net_use_vail (discriminator_network provider)
         then {''Losses/GAIL Discriminator Loss'', ''Policy/GAIL Policy Estimate'',
               ''Policy/GAIL Expert Estimate'', ''Policy/GAIL Beta'', ''Losses/GAIL KL Loss''}
         else {''Losses/GAIL Discriminator Loss'', ''Policy/GAIL Policy Estimate'',
               ''Policy/GAIL Expert Estimate''})"
  proof (cases "net_use_vail net")
    case True
    with st obtain b k where
      "stats = [''Losses/GAIL Discriminator Loss'' \<mapsto> loss,
                ''Policy/GAIL Policy Estimate'' \<mapsto> pm,
                ''Policy/GAIL Expert Estimate'' \<mapsto> em,
                ''Policy/GAIL Beta'' \<mapsto> b,
                ''Losses/GAIL KL Loss'' \<mapsto> k]"
      by auto
    then have "dom stats = {''Losses/GAIL Discriminator Loss'', ''Policy/GAIL Policy Estimate'',
               ''Policy/GAIL Expert Estimate'', ''Policy/GAIL Beta'', ''Losses/GAIL KL Loss''}"
      by (simp only: dom_five)
    with True v show ?thesis by (simp only: if_True)
  next
    case False
    with st have
      "stats = [''Losses/GAIL Discriminator Loss'' \<mapsto> loss,
                ''Policy/GAIL Policy Estimate'' \<mapsto> pm,
                ''Policy/GAIL Expert Estimate'' \<mapsto> em]"
      by auto
    then have "dom stats = {''Losses/GAIL Discriminator Loss'', ''Policy/GAIL Policy Estimate'',
               ''Policy/GAIL Expert Estimate''}"
      by (simp only: dom_three)
    with False v show ?thesis by (simp only: if_False)
  qed
qed

theorem update_stats_keys_witness:
  "(\<exists>stats provider' gen'.
      update example_collaborators (example_provider False True) policy_example
        example_generator = Inr (stats, provider', gen')
      \<and> dom stats = {''Losses/GAIL Discriminator Loss'', ''Policy/GAIL Policy Estimate'',
               ''Policy/GAIL Expert Estimate'', ''Policy/GAIL Beta'', ''Losses/GAIL KL Loss''})
   \<and> (\<exists>stats provider' gen'.
      update example_collaborators (example_provider True False) policy_example
        example_generator = Inr (stats, provider', gen')
      \<and> dom stats = {''Losses/GAIL Discriminator Loss'', ''Policy/GAIL Policy Estimate'',
               ''Policy/GAIL Expert Estimate''})"
proof -
  obtain s1 p1 g1 where 1:
    "update example_collaborators (example_provider False True) policy_example
       example_generator = Inr (s1, p1, g1)"
    using update_example_vail by blast
  obtain s2 p2 g2 where 2:
    "update example_collaborators (example_provider True False) policy_example
       example_generator = Inr (s2, p2, g2)"
    using update_example_plain by blast
  have a: "dom s1 = {''Losses/GAIL Discriminator Loss'', ''Policy/GAIL Policy Estimate'',
               ''Policy/GAIL Expert Estimate'', ''Policy/GAIL Beta'', ''Losses/GAIL KL Loss''}"
    using update_stats_keys [of example_collaborators "example_provider False True"
        policy_example example_generator s1 p1 g1] 1
    by (simp only: example_provider_simps example_network_simps if_True) 
  have b: "dom s2 = {''Losses/GAIL Discriminator Loss'', ''Policy/GAIL Policy Estimate'',
               ''Policy/GAIL Expert Estimate''}"
    using update_stats_keys [of example_collaborators "example_provider True False"
        policy_example example_generator s2 p2 g2] 2
    by (simp only: example_provider_simps example_network_simps if_False)
  show ?thesis using 1 2 a b by blast
qed

text \<open>
  C7. With \<open>use_vail\<close> and the noise switched off, for a latent mean \<open>z_mu\<close> whose rows
  are as wide as \<open>z_sigma\<close>, the sample of the normal distribution is \<open>z_mu\<close> itself and
  the estimate is the estimator applied to \<open>z_mu\<close>. For every provider and batch, the
  rewards that \<open>evaluate\<close> returns (or the error it ends with) are the same for any two
  states of the random generator.
\<close>

theorem no_noise_deterministic:
  "(use_vail (net_settings self) \<and> z_sigma (params self) = Some sigma
      \<and> compute_estimate self mini_batch False gen = Inr (estimate, Some z_mu, gen')
      \<and> list_all (\<lambda>row. length row = length sigma) z_mu
    \<longrightarrow> (\<exists>g. torch_normal z_mu (map (\<lambda>s. s * of_bool False) sigma) gen = Inr (z_mu, g))
        \<and> estimate = estimator self z_mu)
   \<and> map_sum id fst (evaluate provider batch gen1)
       = map_sum id fst (evaluate provider batch gen2)"
proof (intro conjI impI)
  assume a: "use_vail (net_settings self) \<and> z_sigma (params self) = Some sigma
      \<and> compute_estimate self mini_batch False gen = Inr (estimate, Some z_mu, gen')
      \<and> list_all (\<lambda>row. length row = length sigma) z_mu"
  then have w: "list_all (\<lambda>row. length row = length sigma) z_mu" by simp
  from torch_normal_mean [OF w]
  obtain g where g: "torch_normal z_mu (map (\<lambda>s. s * of_bool False) sigma) gen = Inr (z_mu, g)"
    by blast
  then show "\<exists>g. torch_normal z_mu (map (\<lambda>s. s * of_bool False) sigma) gen = Inr (z_mu, g)"
    by blast
  from a obtain sigma' z_mu' h where
    "z_sigma (params self) = Some sigma'" "Some z_mu = Some z_mu'"
    "torch_normal z_mu' (map (\<lambda>s. s * of_bool False) sigma') gen = Inr (h, gen')"
    "estimate = estimator self h"
    by (elim conjE compute_estimate_vail_Inr)
  with a g show "estimate = estimator self z_mu"
    by simp
next
  show "map_sum id fst (evaluate provider batch gen1)
       = map_sum id fst (evaluate provider batch gen2)"
    by (rule evaluate_no_noise)
qed

theorem no_noise_deterministic_witness:
  "(\<exists>g. torch_normal [[0]] (map (\<lambda>s. s * of_bool False) [1]) example_generator
          = Inr ([[0]], g))
   \<and> [[1 / 2]] = estimator (example_network False True) [[0]]
   \<and> map_sum id fst (evaluate (example_provider False True) policy_example example_generator)
       = map_sum id fst (evaluate (example_provider False True) policy_example other_generator)"
proof -
  have 1: "use_vail (net_settings (example_network False True))"
    by simp
  have 2: "z_sigma (params (example_network False True)) = Some [1]"
    by (simp add: example_parameters_def)
  have 3: "compute_estimate (example_network False True) policy_example False
             example_generator
           = Inr ([[1 / 2]], Some [[0]],
                  example_generator\<lparr>consumed := consumed example_generator + 1\<rparr>)"
    by (rule compute_estimate_example_mean)
  have 4: "list_all (\<lambda>row. length row = length [1::real]) [[0::real]]"
    by simp
  from no_noise_deterministic [of "example_network False True" "[1]" policy_example
      example_generator "[[1 / 2]]" "[[0]]"
      "example_generator\<lparr>consumed := consumed example_generator + 1\<rparr>"
      "example_provider False True" policy_example example_generator other_generator]
    1 2 3 4
  show ?thesis by blast
qed

text \<open>
  C8. Whenever \<open>evaluate\<close> returns, the provider it leaves is the provider it received:
  the discriminator with all its parameters and \<open>beta\<close>, the optimizer, the demonstration
  buffer and the base attributes. Only the random generator may have advanced.
\<close>

theorem evaluate_frame:
  "evaluate provider mini_batch gen = Inr (rewards, provider', gen') \<longrightarrow> provider' = provider"
  unfolding evaluate_def
  by (auto simp: bind_result_eq_Inr)

theorem evaluate_frame_witness:
  "\<exists>rewards. evaluate (example_provider False True) policy_example example_generator
     = Inr (rewards, example_provider False True, example_generator\<lparr>consumed := 1\<rparr>)"
proof -
  obtain rewards provider' where
    e: "evaluate (example_provider False True) policy_example example_generator
          = Inr (rewards, provider', example_generator\<lparr>consumed := 1\<rparr>)"
    using evaluate_example_vail by blast
  then have "provider' = example_provider False True"
    using evaluate_frame [of "example_provider False True" policy_example example_generator
        rewards provider' "example_generator\<lparr>consumed := 1\<rparr>"]
    by simp
  with e show ?thesis by blast
qed

text \<open>
  C9. For every behavior spec, settings record and collaborators, a provider that the
  constructor returns has \<open>ignore_done\<close> set.
\<close>

theorem init_ignore_done:
  "init ext specs settings gen = Inr (provider, gen') \<longrightarrow> ignore_done provider = True"
  unfolding init_def
  by (auto simp: bind_result_eq_Inr Let_def split: prod.splits)

theorem init_ignore_done_witness:
  "\<exists>provider. init example_collaborators example_specs (example_settings False True)
                 example_generator = Inr (provider, example_generator)
               \<and> ignore_done provider = True"
proof -
  obtain provider where
    i: "init example_collaborators example_specs (example_settings False True)
          example_generator = Inr (provider, example_generator)"
    using init_example by blast
  then have "ignore_done provider = True"
    using init_ignore_done [of example_collaborators example_specs
        "example_settings False True" example_generator provider example_generator]
    by simp
  with i show ?thesis by blast
qed

text \<open>
  C10. The demonstration buffer of a constructed provider is the buffer the demonstration
  loader returns for the configured path, the sequence length 1 and the behavior spec.
  Whenever \<open>update\<close> returns, the expert batch handed to \<open>compute_loss\<close> is the one
  the sampler returns for the number of experiences of the policy batch and the sequence
  length 1.
\<close>

theorem sequence_length_one:
  "(init ext specs settings gen = Inr (provider, gen')
      \<longrightarrow> (\<exists>d. demo_to_buffer ext (demo_path settings) 1 specs = Inr (d, demo_buffer provider)))
   \<and> (update ext provider0 mini_batch rng = Inr (stats, provider', rng')
      \<longrightarrow> (\<exists>expert_batch rng1 result network.
            sample_mini_batch ext (demo_buffer provider0) (num_experiences mini_batch) 1 rng
              = (expert_batch, rng1)
            \<and> compute_loss (autograd_grad ext) (discriminator_network provider0) mini_batch
                expert_batch rng1 = Inr (result, network, rng')))"
proof (intro conjI impI)
  assume "init ext specs settings gen = Inr (provider, gen')"
  then show "\<exists>d. demo_to_buffer ext (demo_path settings) 1 specs = Inr (d, demo_buffer provider)"
    unfolding init_def
    by (auto simp: bind_result_eq_Inr Let_def split: prod.splits)
next
  assume "update ext provider0 mini_batch rng = Inr (stats, provider', rng')"
  then show "\<exists>expert_batch rng1 result network.
            sample_mini_batch ext (demo_buffer provider0) (num_experiences mini_batch) 1 rng
              = (expert_batch, rng1)
            \<and> compute_loss (autograd_grad ext) (discriminator_network provider0) mini_batch
                expert_batch rng1 = Inr (result, network, rng')"
    by (elim update_Inr) blast
qed

theorem sequence_length_one_witness:
  "(\<exists>provider. init example_collaborators example_specs (example_settings False True)
                 example_generator = Inr (provider, example_generator)
      \<and> demo_to_buffer example_collaborators (demo_path (example_settings False True)) 1
           example_specs = Inr ((), demo_buffer provider))
   \<and> (\<exists>stats provider' gen' expert_batch gen1 result network.
        update example_collaborators (example_provider False True) policy_example
          example_generator = Inr (stats, provider', gen')
        \<and> sample_mini_batch example_collaborators (demo_buffer (example_provider False True))
            (num_experiences policy_example) 1 example_generator = (expert_batch, gen1)
        \<and> compute_loss (autograd_grad example_collaborators)
            (discriminator_network (example_provider False True)) policy_example
            expert_batch gen1 = Inr (result, network, gen'))"
proof -
  obtain provider where
    i: "init example_collaborators example_specs (example_settings False True)
          example_generator = Inr (provider, example_generator)"
    using init_example by blast
  obtain stats provider' gen' where
    u: "update example_collaborators (example_provider False True) policy_example
          example_generator = Inr (stats, provider', gen')"
    using update_example_vail by blast
  note t = sequence_length_one [of example_collaborators example_specs
      "example_settings False True" example_generator provider example_generator
      "example_provider False True" policy_example example_generator stats provider' gen']
  have a: "demo_to_buffer example_collaborators (demo_path (example_settings False True)) 1
             example_specs = Inr ((), demo_buffer provider)"
    using t i by auto
  have b: "\<exists>expert_batch gen1 result network.
        sample_mini_batch example_collaborators (demo_buffer (example_provider False True))
            (num_experiences policy_example) 1 example_generator = (expert_batch, gen1)
        \<and> compute_loss (autograd_grad example_collaborators)
            (discriminator_network (example_provider False True)) policy_example
            expert_batch gen1 = Inr (result, network, gen')"
    using t u by blast
  show ?thesis using i u a b by blast
qed

end
